theory Spec2Isabelle
  imports Complex_Main "HOL-Library.Sublist" "HOL-Library.Multiset"
begin

section \<open>Values exchanged with the providers\<close>

text \<open>
  The provider clients hand the crawler whatever the JSON decoder (or the MusicBrainz
  library) produced: nested dictionaries, lists, strings, numbers, booleans and
  \<open>None\<close>. A decoded number is an unbounded integer or a float; a float is modelled by
  the exact value it denotes, or by one of the three non-finite values (the decoder
  turns a literal such as \<open>1e999\<close> into infinity). A dictionary is an association list
  read with \<open>map_of\<close>. Strings are lists of 8-bit characters (code points below 256).
\<close>

datatype pyfloat = Finite real | PosInf | NegInf | NaN

datatype json =
    JNull
  | JBool bool
  | JInt int
  | JFloat pyfloat
  | JStr string
  | JList "json list"
  | JDict "(string \<times> json) list"

text \<open>The built-in exception classes that the modelled statements can raise.\<close>

datatype pyerr = TypeError | ValueError | AttributeError | KeyError | OverflowError
  | ValidationError

text \<open>Truth value of an object, as \<open>not x\<close> and \<open>if x\<close> test it.\<close>

fun py_truthy :: "json \<Rightarrow> bool" where
  "py_truthy JNull = False"
| "py_truthy (JBool b) = b"
| "py_truthy (JInt i) = (i \<noteq> 0)"
| "py_truthy (JFloat f) = (f \<noteq> Finite 0)"
| "py_truthy (JStr s) = (s \<noteq> [])"
| "py_truthy (JList xs) = (xs \<noteq> [])"
| "py_truthy (JDict kvs) = (kvs \<noteq> [])"

text \<open>\<open>k in s\<close> for two strings: \<open>k\<close> occurs in \<open>s\<close> as a contiguous run.\<close>

fun py_substr :: "string \<Rightarrow> string \<Rightarrow> bool" where
  "py_substr k [] = (k = [])"
| "py_substr k (c # cs) = (prefix k (c # cs) \<or> py_substr k cs)"

text \<open>
  \<open>key in x\<close> for a string key: key membership for a dictionary, element membership
  for a list, substring test for a string, \<open>TypeError\<close> for everything else.
\<close>

fun py_contains :: "string \<Rightarrow> json \<Rightarrow> pyerr + bool" where
  "py_contains k (JDict kvs) = Inr (map_of kvs k \<noteq> None)"
| "py_contains k (JList xs) = Inr (JStr k \<in> set xs)"
| "py_contains k (JStr s) = Inr (py_substr k s)"
| "py_contains k _ = Inl TypeError"

text \<open>\<open>x[key]\<close> for a string key: only a dictionary can be indexed by a string.\<close>

fun py_getitem :: "json \<Rightarrow> string \<Rightarrow> pyerr + json" where
  "py_getitem (JDict kvs) k = (case map_of kvs k of None \<Rightarrow> Inl KeyError | Some v \<Rightarrow> Inr v)"
| "py_getitem _ k = Inl TypeError"

text \<open>\<open>x.get(key, default)\<close>: only dictionaries have the method.\<close>

fun py_get :: "json \<Rightarrow> string \<Rightarrow> json \<Rightarrow> pyerr + json" where
  "py_get (JDict kvs) k d = (case map_of kvs k of None \<Rightarrow> Inr d | Some v \<Rightarrow> Inr v)"
| "py_get _ k d = Inl AttributeError"

text \<open>Running a fallible function over a list stops at the first exception.\<close>

fun mapE :: "('a \<Rightarrow> 'e + 'b) \<Rightarrow> 'a list \<Rightarrow> 'e + 'b list" where
  "mapE f [] = Inr []"
| "mapE f (x # xs) =
     (case f x of
        Inl e \<Rightarrow> Inl e
      | Inr y \<Rightarrow> (case mapE f xs of Inl e \<Rightarrow> Inl e | Inr ys \<Rightarrow> Inr (y # ys)))"

subsection \<open>The built-in \<open>int\<close> conversion\<close>

text \<open>
  Whitespace among the code points below 256: as \<open>str.split\<close> sees it, and as \<open>int\<close>
  strips it from both ends of a literal (the four separator controls 28 to 31 are
  whitespace for the first only).
\<close>

definition is_space :: "char \<Rightarrow> bool" where
  "is_space c =
     (let n = (of_char c :: nat)
      in (9 \<le> n \<and> n \<le> 13) \<or> (28 \<le> n \<and> n \<le> 32) \<or> n = 133 \<or> n = 160)"

definition is_int_space :: "char \<Rightarrow> bool" where
  "is_int_space c =
     (let n = (of_char c :: nat)
      in (9 \<le> n \<and> n \<le> 13) \<or> n = 32 \<or> n = 133 \<or> n = 160)"

definition is_digit :: "char \<Rightarrow> bool" where
  "is_digit c = (48 \<le> (of_char c :: nat) \<and> (of_char c :: nat) \<le> 57)"

definition digit_val :: "char \<Rightarrow> nat" where
  "digit_val c = (of_char c :: nat) - 48"

definition py_strip :: "string \<Rightarrow> string" where
  "py_strip s = rev (dropWhile is_int_space (rev (dropWhile is_int_space s)))"

text \<open>
  Decimal digits, where single underscores may separate digits. The first function
  reads on after a digit has been consumed.
\<close>

fun parse_digits :: "nat \<Rightarrow> string \<Rightarrow> nat option" where
  "parse_digits acc [] = Some acc"
| "parse_digits acc [c] = (if is_digit c then Some (10 * acc + digit_val c) else None)"
| "parse_digits acc (c # d # ds) =
     (if is_digit c then parse_digits (10 * acc + digit_val c) (d # ds)
      else if c = CHR ''_'' \<and> is_digit d then parse_digits (10 * acc + digit_val d) ds
      else None)"

fun parse_nat :: "string \<Rightarrow> nat option" where
  "parse_nat [] = None"
| "parse_nat (c # cs) = (if is_digit c then parse_digits (digit_val c) cs else None)"

definition py_int_str :: "string \<Rightarrow> int option" where
  "py_int_str s =
     (case py_strip s of
        [] \<Rightarrow> None
      | c # r \<Rightarrow>
          if c = CHR ''-'' then map_option (\<lambda>n. - int n) (parse_nat r)
          else if c = CHR ''+'' then map_option int (parse_nat r)
          else map_option int (parse_nat (c # r)))"

text \<open>
  \<open>int(x)\<close>: an integer is returned as it is, a boolean as 0 or 1, a finite float is
  truncated towards zero, an infinite float raises \<open>OverflowError\<close> and a NaN
  \<open>ValueError\<close>; a string is parsed as a signed decimal literal or raises
  \<open>ValueError\<close>; \<open>None\<close>, lists and dictionaries raise \<open>TypeError\<close>. (The limit that
  recent interpreters put on the number of digits of a literal is left out; it raises
  \<open>ValueError\<close> as any malformed literal does.)
\<close>

fun py_int :: "json \<Rightarrow> pyerr + int" where
  "py_int (JInt i) = Inr i"
| "py_int (JBool b) = Inr (if b then 1 else 0)"
| "py_int (JFloat (Finite r)) = Inr (if 0 \<le> r then \<lfloor>r\<rfloor> else \<lceil>r\<rceil>)"
| "py_int (JFloat NaN) = Inl ValueError"
| "py_int (JFloat _) = Inl OverflowError"
| "py_int (JStr s) = (case py_int_str s of None \<Rightarrow> Inl ValueError | Some i \<Rightarrow> Inr i)"
| "py_int _ = Inl TypeError"

section \<open>The canonical data model (models/discography.py)\<close>

text \<open>
  A calendar date as the standard library's \<open>date\<close> holds it; only valid dates are ever
  built (see \<open>mk_date\<close> below).
\<close>

record pydate =
  year :: int
  month :: int
  day :: int

text \<open>
  The models do not validate assignments, and the merge assigns provider values to
  \<open>label\<close> and \<open>genre\<close> as they come; these two fields therefore hold decoded values.
  \<open>JNull\<close> is \<open>None\<close>.
\<close>

record Track =
  title :: string
  track_number :: int
  duration_ms :: "int option"
  isrc :: "string option"
  preview_available :: bool
  explicit :: bool
  lyrics_reference :: "json option"
  genius_url :: "string option"

record Album =
  album_title :: string
  release_date :: "pydate option"
  release_year :: "int option"
  album_type :: string
  label :: json
  catalog_number :: "string option"
  tracks :: "Track list"
  album_musicbrainz_id :: "string option"
  album_spotify_id :: "string option"
  album_lastfm_id :: "string option"
  genre :: "json list option"
  country :: "string option"

text \<open>\<open>Album.track_count\<close>: \<open>len(self.tracks)\<close>.\<close>

definition track_count :: "Album \<Rightarrow> int" where
  "track_count a = int (length (tracks a))"

section \<open>Merging enrichment data (discography_crawler.py)\<close>

text \<open>\<open>not enhanced_track.duration_ms\<close>: true for \<open>None\<close> and for 0.\<close>

definition duration_missing :: "Track \<Rightarrow> bool" where
  "duration_missing t = (case duration_ms t of None \<Rightarrow> True | Some d \<Rightarrow> d = 0)"

text \<open>
  The part of the loop body of \<open>_enhance_tracks\<close> that is run when an enrichment track
  stands at the same position. The membership test comes first and its exception is
  not caught; the lookup and the conversion stand inside the \<open>try\<close>, which catches
  \<open>ValueError\<close> and \<open>TypeError\<close> only.
\<close>

definition enhance_pair :: "Track \<Rightarrow> json \<Rightarrow> pyerr + Track" where
  "enhance_pair enhanced_track lastfm_track =
     (case py_contains ''duration'' lastfm_track of
        Inl e \<Rightarrow> Inl e
      | Inr has_duration \<Rightarrow>
          if has_duration \<and> duration_missing enhanced_track then
            (case (case py_getitem lastfm_track ''duration'' of
                     Inl e \<Rightarrow> Inl e
                   | Inr v \<Rightarrow> py_int v) of
               Inr duration_seconds \<Rightarrow>
                 Inr (enhanced_track\<lparr>duration_ms := Some (duration_seconds * 1000)\<rparr>)
             | Inl e \<Rightarrow>
                 if e = ValueError \<or> e = TypeError then Inr enhanced_track else Inl e)
          else Inr enhanced_track)"

text \<open>The loop body for position \<open>i\<close>.\<close>

definition enhance_at :: "nat \<Rightarrow> Track \<Rightarrow> json list \<Rightarrow> pyerr + Track" where
  "enhance_at i mb_track lastfm_tracks =
     (if i < length lastfm_tracks then enhance_pair mb_track (lastfm_tracks ! i)
      else Inr mb_track)"

text \<open>\<open>for i, mb_track in enumerate(mb_tracks)\<close>, from position \<open>i\<close> on.\<close>

fun enhance_from :: "nat \<Rightarrow> Track list \<Rightarrow> json list \<Rightarrow> pyerr + Track list" where
  "enhance_from i [] lastfm_tracks = Inr []"
| "enhance_from i (mb_track # rest) lastfm_tracks =
     (case enhance_at i mb_track lastfm_tracks of
        Inl e \<Rightarrow> Inl e
      | Inr t \<Rightarrow>
          (case enhance_from (Suc i) rest lastfm_tracks of
             Inl e \<Rightarrow> Inl e
           | Inr ts \<Rightarrow> Inr (t # ts)))"

definition enhance_tracks :: "Track list \<Rightarrow> json list \<Rightarrow> pyerr + Track list" where
  "enhance_tracks mb_tracks lastfm_tracks = enhance_from 0 mb_tracks lastfm_tracks"

text \<open>
  An enrichment track as the annotation \<open>List[Dict]\<close> has it, whose duration is not an
  infinite float (the one value whose conversion raises an exception the loop does not
  catch).
\<close>

fun track_entry_ok :: "json \<Rightarrow> bool" where
  "track_entry_ok (JDict kvs) =
     (map_of kvs ''duration'' \<noteq> Some (JFloat PosInf) \<and>
      map_of kvs ''duration'' \<noteq> Some (JFloat NegInf))"
| "track_entry_ok _ = False"

text \<open>
  \<open>'a' in d and 'b' in d['a']\<close> followed by \<open>d['a']['b']\<close>: the value reached when
  both membership tests succeed, \<open>None\<close> when one of them fails.
\<close>

definition nested_entry :: "json \<Rightarrow> string \<Rightarrow> string \<Rightarrow> pyerr + json option" where
  "nested_entry d a b =
     (case py_contains a d of
        Inl e \<Rightarrow> Inl e
      | Inr False \<Rightarrow> Inr None
      | Inr True \<Rightarrow>
          (case py_getitem d a of
             Inl e \<Rightarrow> Inl e
           | Inr inner \<Rightarrow>
               (case py_contains b inner of
                  Inl e \<Rightarrow> Inl e
                | Inr False \<Rightarrow> Inr None
                | Inr True \<Rightarrow>
                    (case py_getitem inner b of Inl e \<Rightarrow> Inl e | Inr v \<Rightarrow> Inr (Some v)))))"

text \<open>The genre step of \<open>_merge_album_data\<close>.\<close>

definition merge_genre :: "Album \<Rightarrow> json \<Rightarrow> pyerr + Album" where
  "merge_genre enhanced_album lastfm_data =
     (case nested_entry lastfm_data ''tags'' ''tag'' of
        Inl e \<Rightarrow> Inl e
      | Inr None \<Rightarrow> Inr enhanced_album
      | Inr (Some tags) \<Rightarrow>
          (case tags of
             JList ts \<Rightarrow>
               (case mapE (\<lambda>tag. py_get tag ''name'' (JStr [])) (take 5 ts) of
                  Inl e \<Rightarrow> Inl e
                | Inr names \<Rightarrow> Inr (enhanced_album\<lparr>genre := Some names\<rparr>))
           | JDict kvs \<Rightarrow>
               (case py_get tags ''name'' (JStr []) of
                  Inl e \<Rightarrow> Inl e
                | Inr name \<Rightarrow> Inr (enhanced_album\<lparr>genre := Some [name]\<rparr>))
           | _ \<Rightarrow> Inr enhanced_album))"

text \<open>The label step: the membership test is made only when the label is missing.\<close>

definition merge_label :: "Album \<Rightarrow> json \<Rightarrow> pyerr + Album" where
  "merge_label enhanced_album lastfm_data =
     (if \<not> py_truthy (label enhanced_album) then
        (case py_contains ''label'' lastfm_data of
           Inl e \<Rightarrow> Inl e
         | Inr False \<Rightarrow> Inr enhanced_album
         | Inr True \<Rightarrow>
             (case py_getitem lastfm_data ''label'' of
                Inl e \<Rightarrow> Inl e
              | Inr v \<Rightarrow> Inr (enhanced_album\<lparr>label := v\<rparr>)))
      else Inr enhanced_album)"

text \<open>The track step.\<close>

definition merge_tracks :: "Album \<Rightarrow> json \<Rightarrow> pyerr + Album" where
  "merge_tracks enhanced_album lastfm_data =
     (case nested_entry lastfm_data ''tracks'' ''track'' of
        Inl e \<Rightarrow> Inl e
      | Inr None \<Rightarrow> Inr enhanced_album
      | Inr (Some lastfm_tracks) \<Rightarrow>
          (case lastfm_tracks of
             JList lts \<Rightarrow>
               (case enhance_tracks (tracks enhanced_album) lts of
                  Inl e \<Rightarrow> Inl e
                | Inr ts \<Rightarrow> Inr (enhanced_album\<lparr>tracks := ts\<rparr>))
           | _ \<Rightarrow> Inr enhanced_album))"

text \<open>
  \<open>_merge_album_data\<close>: the album is deep-copied first, so the argument is not changed
  and the result is a new value. The payload is annotated as a dictionary, but the
  caller passes on whatever truthy value the lookup returned, so it is a decoded value.
\<close>

definition merge_album_data :: "Album \<Rightarrow> json \<Rightarrow> pyerr + Album" where
  "merge_album_data mb_album lastfm_data =
     (case merge_genre mb_album lastfm_data of
        Inl e \<Rightarrow> Inl e
      | Inr a1 \<Rightarrow>
          (case merge_label a1 lastfm_data of
             Inl e \<Rightarrow> Inl e
           | Inr a2 \<Rightarrow> merge_tracks a2 lastfm_data))"

section \<open>Artist, Discography and CrawlStatus (models/discography.py)\<close>

record Artist =
  name :: string
  sort_name :: "string option"
  disambiguation :: "string option"
  artist_musicbrainz_id :: "string option"
  artist_spotify_id :: "string option"
  artist_lastfm_id :: "string option"
  artist_country :: "string option"
  begin_date :: "pydate option"
  end_date :: "pydate option"
  artist_type :: "string option"
  gender :: "string option"

text \<open>A reading of the wall clock (\<open>datetime.now()\<close>, \<open>time.time()\<close>), in seconds.\<close>

type_synonym timestamp = real

record Discography =
  artist :: Artist
  albums :: "Album list"
  crawled_at :: timestamp
  sources :: "string list"
  metadata :: "json option"

text \<open>The built-in \<open>sum\<close> over integers: it starts from 0 and adds from the left.\<close>

definition py_sum :: "int list \<Rightarrow> int" where
  "py_sum xs = foldl (\<lambda>acc x. acc + x) 0 xs"

definition total_albums :: "Discography \<Rightarrow> int" where
  "total_albums d = int (length (albums d))"

definition total_tracks :: "Discography \<Rightarrow> int" where
  "total_tracks d = py_sum (map track_count (albums d))"

record CrawlStatus =
  artist_name :: string
  started_at :: timestamp
  completed_at :: "timestamp option"
  status :: string
  albums_found :: int
  tracks_found :: int
  errors :: "string list"
  sources_used :: "string list"

text \<open>\<open>CrawlStatus(artist_name=...)\<close>: every other field takes its default.\<close>

definition new_status :: "string \<Rightarrow> timestamp \<Rightarrow> CrawlStatus" where
  "new_status queried now =
     \<lparr>artist_name = queried, started_at = now, completed_at = None,
      status = ''in_progress'', albums_found = 0, tracks_found = 0,
      errors = [], sources_used = []\<rparr>"

definition mark_completed :: "timestamp \<Rightarrow> CrawlStatus \<Rightarrow> CrawlStatus" where
  "mark_completed now st = st\<lparr>status := ''completed'', completed_at := Some now\<rparr>"

definition mark_failed :: "timestamp \<Rightarrow> string \<Rightarrow> CrawlStatus \<Rightarrow> CrawlStatus" where
  "mark_failed now error st =
     st\<lparr>status := ''failed'', completed_at := Some now, errors := errors st @ [error]\<rparr>"

section \<open>Retry with backoff (crawlers/base_crawler.py)\<close>

text \<open>
  The two delays are floats; each is modelled by the exact real it denotes.
\<close>

record RetryManager =
  max_retries :: int
  base_delay :: real
  max_delay :: real

text \<open>What the caller of \<open>execute_with_retry\<close> can observe from outside.\<close>

datatype event = Invoked | Slept real

text \<open>
  What \<open>execute_with_retry\<close> can raise: an exception of the operation, raised again;
  the \<open>OverflowError\<close> of the delay computation; the \<open>TypeError\<close> of \<open>raise None\<close>.
\<close>

datatype 'e retry_exn = Reraised 'e | DelayOverflow | RaiseOfNone

text \<open>
  \<open>base_delay * (2 ** attempt)\<close>: the integer power is converted to a float before the
  multiplication, and the conversion raises \<open>OverflowError\<close> from \<open>2 ** 1024\<close> on.
  Below that the power is a float exactly, and the product of a float with a power of
  two is exact (beyond the largest float the product is infinite, and the minimum with
  the finite \<open>max_delay\<close> is \<open>max_delay\<close> either way).
\<close>

definition backoff_delay :: "RetryManager \<Rightarrow> nat \<Rightarrow> pyerr + real" where
  "backoff_delay rm attempt =
     (if 1024 \<le> attempt then Inl OverflowError
      else Inr (min (base_delay rm * 2 ^ attempt) (max_delay rm)))"

text \<open>
  The loop \<open>for attempt in range(self.max_retries + 1)\<close>, from \<open>attempt\<close> on. The
  awaited operation is a state transformer on the outside world that returns a value
  or raises; \<open>last_exception\<close> is \<open>None\<close> until an attempt has failed.
\<close>

function retry_from ::
  "RetryManager \<Rightarrow> ('s \<Rightarrow> ('e + 'a) \<times> 's) \<Rightarrow> nat \<Rightarrow> 'e option \<Rightarrow> 's \<Rightarrow> event list
     \<Rightarrow> ('e retry_exn + 'a) \<times> 's \<times> event list" where
  "retry_from rm func attempt last_exception s trace =
     (if int attempt < max_retries rm + 1 then
        (case func s of
           (Inr v, s') \<Rightarrow> (Inr v, s', trace @ [Invoked])
         | (Inl e, s') \<Rightarrow>
             if int attempt < max_retries rm then
               (case backoff_delay rm attempt of
                  Inl err \<Rightarrow> (Inl DelayOverflow, s', trace @ [Invoked])
                | Inr delay \<Rightarrow>
                    retry_from rm func (Suc attempt) (Some e) s'
                      (trace @ [Invoked, Slept delay]))
             else retry_from rm func (Suc attempt) (Some e) s' (trace @ [Invoked]))
      else
        (case last_exception of
           None \<Rightarrow> (Inl RaiseOfNone, s, trace)
         | Some e \<Rightarrow> (Inl (Reraised e), s, trace)))"
  by pat_completeness auto
termination
  by (relation "measure (\<lambda>(rm, func, attempt, last, s, trace).
        nat (max_retries rm + 1 - int attempt))") auto

definition execute_with_retry ::
  "RetryManager \<Rightarrow> ('s \<Rightarrow> ('e + 'a) \<times> 's) \<Rightarrow> 's \<Rightarrow> ('e retry_exn + 'a) \<times> 's \<times> event list" where
  "execute_with_retry rm func s = retry_from rm func 0 None s []"

text \<open>
  To speak about a run: the state of the outside world before the \<open>k\<close>-th invocation
  of the operation (counted from 0), what that invocation comes back with, and the
  trace of a run whose attempts \<open>a\<close> to \<open>j\<close> are made, each but the last followed by
  its backoff sleep.
\<close>

fun nth_state :: "('s \<Rightarrow> ('e + 'a) \<times> 's) \<Rightarrow> 's \<Rightarrow> nat \<Rightarrow> 's" where
  "nth_state func s 0 = s"
| "nth_state func s (Suc k) = nth_state func (snd (func s)) k"

definition nth_outcome :: "('s \<Rightarrow> ('e + 'a) \<times> 's) \<Rightarrow> 's \<Rightarrow> nat \<Rightarrow> 'e + 'a" where
  "nth_outcome func s k = fst (func (nth_state func s k))"

definition attempts_trace :: "RetryManager \<Rightarrow> nat \<Rightarrow> nat \<Rightarrow> event list" where
  "attempts_trace rm a j =
     concat (map (\<lambda>i. [Invoked, Slept (min (base_delay rm * 2 ^ i) (max_delay rm))]) [a..<j])
       @ [Invoked]"

section \<open>Rate limiting (crawlers/base_crawler.py)\<close>

text \<open>
  The limiter with its lock; \<open>locked\<close> says that some frame is inside
  \<open>async with self._lock\<close>. The lock of the event-loop library has no owner and is
  not re-entrant: whoever asks for it while it is held waits until it is released.
\<close>

record RateLimiter =
  max_requests :: int
  time_window :: int
  requests :: "real list"
  locked :: bool

text \<open>
  \<open>acquire\<close>, run by one task, with the wall clock threaded through: \<open>None\<close> is a call
  that never returns. A call that finds the lock held waits for it; within one task the
  holder is a frame that is itself waiting for this call, so the wait never ends. The
  sleep moves the clock on by the time asked for. Leaving the \<open>async with\<close> block, by
  return or by exception, releases the lock.
\<close>

partial_function (option) acquire ::
  "RateLimiter \<Rightarrow> real \<Rightarrow> ((pyerr + unit) \<times> RateLimiter \<times> real) option" where
  "acquire rl clock =
     (if locked rl then None
      else
        (let now = clock;
             kept = filter (\<lambda>req_time. now - req_time < real_of_int (time_window rl))
                      (requests rl);
             rl1 = rl\<lparr>requests := kept, locked := True\<rparr>
         in if max_requests rl \<le> int (length kept) then
              (case kept of
                 [] \<Rightarrow> Some (Inl ValueError, rl1\<lparr>locked := False\<rparr>, clock)
               | r # rs \<Rightarrow>
                   (let oldest_request = fold min rs r;
                        sleep_time = real_of_int (time_window rl) - (now - oldest_request)
                    in if 0 < sleep_time then
                         Option.bind (acquire rl1 (clock + sleep_time))
                           (\<lambda>(res, rl2, clock2). Some (res, rl2\<lparr>locked := False\<rparr>, clock2))
                       else
                         Some (Inr (), rl1\<lparr>requests := kept @ [now], locked := False\<rparr>, clock)))
            else Some (Inr (), rl1\<lparr>requests := kept @ [now], locked := False\<rparr>, clock)))"

text \<open>The recorded calls that \<open>acquire\<close> keeps at time \<open>now\<close>: those inside the window.\<close>

definition kept_requests :: "RateLimiter \<Rightarrow> real \<Rightarrow> real list" where
  "kept_requests rl now =
     filter (\<lambda>req_time. now - req_time < real_of_int (time_window rl)) (requests rl)"

text \<open>
  A task that calls \<open>acquire\<close> again and again; the list gives the time that passes
  before each call. The result is the limiter after the last call, or \<open>None\<close> when a
  call never returns.
\<close>

fun acquire_all :: "RateLimiter \<Rightarrow> real \<Rightarrow> real list \<Rightarrow> (RateLimiter \<times> real) option" where
  "acquire_all rl clock [] = Some (rl, clock)"
| "acquire_all rl clock (gap # gaps) =
     (case acquire rl (clock + gap) of
        None \<Rightarrow> None
      | Some (res, rl', clock') \<Rightarrow> acquire_all rl' clock' gaps)"

text \<open>\<open>RateLimiter(max_requests, time_window)\<close>.\<close>

definition new_limiter :: "int \<Rightarrow> int \<Rightarrow> RateLimiter" where
  "new_limiter n w = \<lparr>max_requests = n, time_window = w, requests = [], locked = False\<rparr>"

section \<open>The aggregation engine (discography_crawler.py)\<close>

text \<open>
  An exception that reaches the crawler from outside, or that the crawler raises
  itself: every instance of \<open>Exception\<close> with what \<open>str\<close> makes of it. The second
  constructor carries the class name of any other exception.
\<close>

datatype exn = CrawlerError string | OtherError string string

fun exn_str :: "exn \<Rightarrow> string" where
  "exn_str (CrawlerError m) = m"
| "exn_str (OtherError cls m) = m"

text \<open>
  The crawler object: the limiter and the retry manager of \<open>BaseCrawler\<close>, the
  secondary-provider key, and the three counters of \<open>self.stats\<close> that \<open>make_request\<close>
  writes.
\<close>

record crawler =
  rate_limiter :: RateLimiter
  retry_manager :: RetryManager
  lastfm_api_key :: "string option"
  requests_made :: int
  requests_successful :: int
  requests_failed :: int

text \<open>
  \<open>DiscographyCrawler(lastfm_api_key, rate_limit_requests, rate_limit_window,
  max_retries)\<close>; the defaults of the last three are 5, 60 and 3.
\<close>

definition new_crawler :: "string option \<Rightarrow> int \<Rightarrow> int \<Rightarrow> int \<Rightarrow> crawler" where
  "new_crawler key rate_limit_requests rate_limit_window retries =
     \<lparr>rate_limiter = new_limiter rate_limit_requests rate_limit_window,
      retry_manager = \<lparr>max_retries = retries, base_delay = 1, max_delay = 60\<rparr>,
      lastfm_api_key = key,
      requests_made = 0, requests_successful = 0, requests_failed = 0\<rparr>"

text \<open>
  The outside world of one crawl. The three \<open>datetime.now()\<close> readings that end up in
  the status and in the discography; the reading of \<open>time.time()\<close> inside the \<open>k\<close>-th
  \<open>make_request\<close> of the crawl (the search is number 0, the backbone number 1, the
  lookup of the \<open>i\<close>-th album number \<open>2 + i\<close>); and the three provider operations that
  are handed to \<open>make_request\<close>, each a state transformer on the providers' state that
  returns a value or raises.
\<close>

record 's world =
  now_started :: timestamp
  now_finished :: timestamp
  now_crawled :: timestamp
  clock_reading :: "nat \<Rightarrow> real"
  search_artist_op :: "string \<Rightarrow> 's \<Rightarrow> (exn + Artist list) \<times> 's"
  get_artist_discography_op :: "string option \<Rightarrow> 's \<Rightarrow> (exn + Album list) \<times> 's"
  get_album_info_op :: "string \<Rightarrow> string \<Rightarrow> 's \<Rightarrow> (exn + json) \<times> 's"

text \<open>The class names of the built-in exceptions.\<close>

fun pyerr_name :: "pyerr \<Rightarrow> string" where
  "pyerr_name TypeError = ''TypeError''"
| "pyerr_name ValueError = ''ValueError''"
| "pyerr_name AttributeError = ''AttributeError''"
| "pyerr_name KeyError = ''KeyError''"
| "pyerr_name OverflowError = ''OverflowError''"
| "pyerr_name ValidationError = ''ValidationError''"

text \<open>
  The exception that leaves \<open>execute_with_retry\<close>, as the caller catches it; the two
  exceptions of the interpreter come with the interpreter's message.
\<close>

fun retry_raised :: "exn retry_exn \<Rightarrow> exn" where
  "retry_raised (Reraised e) = e"
| "retry_raised DelayOverflow = OtherError ''OverflowError'' ''int too large to convert to float''"
| "retry_raised RaiseOfNone =
     OtherError ''TypeError'' ''exceptions must derive from BaseException''"

text \<open>
  \<open>BaseCrawler.make_request\<close>, called when the clock reads \<open>now\<close>: \<open>None\<close> is a call that
  never returns. The limiter is awaited first, outside the \<open>try\<close>: if \<open>acquire\<close> does not
  return, neither does the request, and the one exception it can raise (the
  \<open>ValueError\<close> of \<open>min\<close> on an empty list) leaves the counters alone. Then the request is
  counted, the operation is run under the retry manager, and the outcome is counted as
  a success or as a failure, which is raised again.
\<close>

definition make_request ::
  "crawler \<Rightarrow> real \<Rightarrow> ('s \<Rightarrow> (exn + 'a) \<times> 's) \<Rightarrow> 's \<Rightarrow> ((exn + 'a) \<times> crawler \<times> 's) option" where
  "make_request cr now func s =
     (case acquire (rate_limiter cr) now of
        None \<Rightarrow> None
      | Some (admitted, rl, clock) \<Rightarrow>
          (case admitted of
             Inl err \<Rightarrow>
               Some (Inl (OtherError (pyerr_name err) ''min() arg is an empty sequence''),
                     cr\<lparr>rate_limiter := rl\<rparr>, s)
           | Inr u \<Rightarrow>
               (let cr1 = cr\<lparr>rate_limiter := rl, requests_made := requests_made cr + 1\<rparr>
                in case execute_with_retry (retry_manager cr1) func s of
                     (Inr result, s', trace) \<Rightarrow>
                       Some (Inr result,
                             cr1\<lparr>requests_successful := requests_successful cr1 + 1\<rparr>, s')
                   | (Inl e, s', trace) \<Rightarrow>
                       Some (Inl (retry_raised e),
                             cr1\<lparr>requests_failed := requests_failed cr1 + 1\<rparr>, s'))))"

text \<open>\<open>not self.lastfm_api_key\<close>: no key, or the empty string.\<close>

definition key_missing :: "string option \<Rightarrow> bool" where
  "key_missing k = (case k of None \<Rightarrow> True | Some v \<Rightarrow> v = [])"

text \<open>
  One round of the loop of \<open>_enhance_with_lastfm\<close>, once the lookup has come back: the
  album that is appended. Every exception of the lookup or of the merge ends in the
  \<open>except\<close> branch, which appends the original album.
\<close>

definition enhance_album :: "(exn + json) \<Rightarrow> Album \<Rightarrow> Album" where
  "enhance_album outcome album =
     (case outcome of
        Inl e \<Rightarrow> album
      | Inr lastfm_album \<Rightarrow>
          if py_truthy lastfm_album then
            (case merge_album_data album lastfm_album of
               Inl e \<Rightarrow> album
             | Inr enhanced_album \<Rightarrow> enhanced_album)
          else album)"

text \<open>
  The loop of \<open>_enhance_with_lastfm\<close> from the album whose lookup is request number \<open>k\<close>
  of the crawl: one \<open>make_request\<close> per album, in order. A lookup that never returns
  leaves the loop, and the crawl, without a result.
\<close>

fun enhance_albums_from ::
  "'s world \<Rightarrow> Artist \<Rightarrow> nat \<Rightarrow> Album list \<Rightarrow> crawler \<Rightarrow> 's
     \<Rightarrow> (Album list \<times> crawler \<times> 's) option" where
  "enhance_albums_from w art k [] cr s = Some ([], cr, s)"
| "enhance_albums_from w art k (album # rest) cr s =
     (case make_request cr (clock_reading w k)
             (get_album_info_op w (name art) (album_title album)) s of
        None \<Rightarrow> None
      | Some (outcome, cr', s') \<Rightarrow>
          (case enhance_albums_from w art (Suc k) rest cr' s' of
             None \<Rightarrow> None
           | Some (enhanced_albums, cr'', s'') \<Rightarrow>
               Some (enhance_album outcome album # enhanced_albums, cr'', s'')))"

definition enhance_with_lastfm ::
  "'s world \<Rightarrow> Artist \<Rightarrow> Album list \<Rightarrow> crawler \<Rightarrow> 's
     \<Rightarrow> (Album list \<times> crawler \<times> 's) option" where
  "enhance_with_lastfm w art albs cr s =
     (if key_missing (lastfm_api_key cr) then Some (albs, cr, s)
      else enhance_albums_from w art 2 albs cr s)"

definition apostrophe :: char where
  "apostrophe = char_of (39 :: nat)"

text \<open>The two messages of \<open>get_artist_discography\<close>.\<close>

definition not_found_message :: "string \<Rightarrow> string" where
  "not_found_message queried =
     ''Artista '' @ [apostrophe] @ queried @ [apostrophe] @ '' non trovato''"

definition failure_message :: "string \<Rightarrow> string \<Rightarrow> string" where
  "failure_message queried cause =
     ''Fallimento nel crawling per '' @ [apostrophe] @ queried @ [apostrophe] @ '': '' @ cause"

text \<open>The \<open>except\<close> branch of \<open>get_artist_discography\<close>.\<close>

definition crawl_failed ::
  "'s world \<Rightarrow> string \<Rightarrow> CrawlStatus \<Rightarrow> exn \<Rightarrow> (exn + Discography) \<times> CrawlStatus" where
  "crawl_failed w queried st e =
     (Inl (CrawlerError (failure_message queried (exn_str e))),
      mark_failed (now_finished w) (exn_str e) st)"

text \<open>The steps of \<open>get_artist_discography\<close> after the enrichment has returned.\<close>

definition crawl_completed ::
  "'s world \<Rightarrow> crawler \<Rightarrow> CrawlStatus \<Rightarrow> Artist \<Rightarrow> Album list
     \<Rightarrow> (exn + Discography) \<times> CrawlStatus" where
  "crawl_completed w cr st1 primary_artist enhanced_albums =
     (let total = py_sum (map (\<lambda>album. int (length (tracks album))) enhanced_albums);
          st2 = st1\<lparr>tracks_found := total\<rparr>;
          discography =
            \<lparr>artist = primary_artist, albums = enhanced_albums,
             crawled_at = now_crawled w,
             sources = [''MusicBrainz'']
               @ (if key_missing (lastfm_api_key cr) then [] else [''Last.fm'']),
             metadata = Some (JDict [])\<rparr>
      in (Inr discography, mark_completed (now_finished w) st2))"

text \<open>
  \<open>DiscographyCrawler.get_artist_discography\<close>: the result or the exception raised and
  the crawl status left behind, with the crawler and the providers' state after the
  crawl; \<open>None\<close> when the crawl never returns, which is when one of its requests does
  not.
\<close>

definition get_artist_discography ::
  "'s world \<Rightarrow> crawler \<Rightarrow> string \<Rightarrow> 's
     \<Rightarrow> (((exn + Discography) \<times> CrawlStatus) \<times> crawler \<times> 's) option" where
  "get_artist_discography w cr queried s =
     (let st0 = new_status queried (now_started w)
      in case make_request cr (clock_reading w 0) (search_artist_op w queried) s of
           None \<Rightarrow> None
         | Some (found, cr1, s1) \<Rightarrow>
             (case found of
                Inl e \<Rightarrow> Some (crawl_failed w queried st0 e, cr1, s1)
              | Inr [] \<Rightarrow>
                  Some (crawl_failed w queried st0 (CrawlerError (not_found_message queried)),
                        cr1, s1)
              | Inr (primary_artist # others) \<Rightarrow>
                  (case make_request cr1 (clock_reading w 1)
                          (get_artist_discography_op w (artist_musicbrainz_id primary_artist))
                          s1 of
                     None \<Rightarrow> None
                   | Some (fetched, cr2, s2) \<Rightarrow>
                       (case fetched of
                          Inl e \<Rightarrow> Some (crawl_failed w queried st0 e, cr2, s2)
                        | Inr mb_albums \<Rightarrow>
                            (let st1 = st0\<lparr>albums_found := int (length mb_albums)\<rparr>
                             in case enhance_with_lastfm w primary_artist mb_albums cr2 s2 of
                                  None \<Rightarrow> None
                                | Some (enhanced_albums, cr3, s3) \<Rightarrow>
                                    Some (crawl_completed w cr3 st1 primary_artist
                                            enhanced_albums, cr3, s3))))))"

section \<open>The lyrics-metadata client (services/lyrics_metadata_client.py)\<close>

text \<open>\<open>str.split()\<close> without argument: the maximal runs of non-whitespace.\<close>

function py_split :: "string \<Rightarrow> string list" where
  "py_split s =
     (case dropWhile is_space s of
        [] \<Rightarrow> []
      | c # cs \<Rightarrow>
          takeWhile (\<lambda>x. \<not> is_space x) (c # cs)
            # py_split (dropWhile (\<lambda>x. \<not> is_space x) cs))"
  by pat_completeness auto
termination
proof (relation "measure length")
  show "wf (measure length)" by simp
next
  fix s :: string and c cs
  assume "dropWhile is_space s = c # cs"
  then have "length (c # cs) \<le> length s"
    by (metis length_dropWhile_le)
  moreover have "length (dropWhile (\<lambda>x. \<not> is_space x) cs) \<le> length cs"
    by (rule length_dropWhile_le)
  ultimately show "(dropWhile (\<lambda>x. \<not> is_space x) cs, s) \<in> measure length"
    by simp
qed

text \<open>\<open>sep.join(words)\<close>.\<close>

fun py_join :: "string \<Rightarrow> string list \<Rightarrow> string" where
  "py_join sep [] = []"
| "py_join sep [w] = w"
| "py_join sep (w # v # ws) = w @ sep @ py_join sep (v # ws)"

text \<open>Decimal notation of an integer.\<close>

function string_of_nat :: "nat \<Rightarrow> string" where
  "string_of_nat n =
     (if n < 10 then [char_of (48 + n)]
      else string_of_nat (n div 10) @ [char_of (48 + n mod 10)])"
  by pat_completeness auto
termination
  by (relation "measure id") auto

definition string_of_int :: "int \<Rightarrow> string" where
  "string_of_int i = (if i < 0 then CHR ''-'' # string_of_nat (nat (- i)) else string_of_nat (nat i))"

text \<open>
  What an f-string makes of a value: a string stands for itself. The text of floats,
  lists and dictionaries is left to the parameter \<open>render\<close>.
\<close>

fun py_str :: "(json \<Rightarrow> string) \<Rightarrow> json \<Rightarrow> string" where
  "py_str render (JStr s) = s"
| "py_str render JNull = ''None''"
| "py_str render (JBool b) = (if b then ''True'' else ''False'')"
| "py_str render (JInt i) = string_of_int i"
| "py_str render v = render v"

text \<open>
  Iterating over a value: the elements of a list, the keys of a dictionary, the
  characters of a string; nothing else can be iterated.
\<close>

fun py_iter :: "json \<Rightarrow> pyerr + json list" where
  "py_iter (JList xs) = Inr xs"
| "py_iter (JDict kvs) = Inr (map (\<lambda>kv. JStr (fst kv)) kvs)"
| "py_iter (JStr s) = Inr (map (\<lambda>c. JStr [c]) s)"
| "py_iter _ = Inl TypeError"

text \<open>Sequencing of fallible steps.\<close>

definition ebind :: "'e + 'a \<Rightarrow> ('a \<Rightarrow> 'e + 'b) \<Rightarrow> 'e + 'b" where
  "ebind m f = (case m of Inl e \<Rightarrow> Inl e | Inr v \<Rightarrow> f v)"

text \<open>The fallback of \<open>_get_identification_snippet\<close>.\<close>

definition title_snippet :: "(json \<Rightarrow> string) \<Rightarrow> json \<Rightarrow> string option" where
  "title_snippet render song_data =
     (case py_get song_data ''title'' (JStr ''N/A'') of
        Inl e \<Rightarrow> None
      | Inr t \<Rightarrow> Some (''Canzone: '' @ py_str render t))"

text \<open>
  \<open>_get_identification_snippet\<close>: the whole body stands in a \<open>try\<close> whose \<open>except\<close>
  branch returns \<open>None\<close>; a text that is no string has no \<open>split\<close> method.
\<close>

definition get_identification_snippet :: "(json \<Rightarrow> string) \<Rightarrow> json \<Rightarrow> string option" where
  "get_identification_snippet render song_data =
     (case py_get song_data ''description'' (JDict []) of
        Inl e \<Rightarrow> None
      | Inr description \<Rightarrow>
          (case description of
             JDict kvs \<Rightarrow>
               (case map_of kvs ''plain'' of
                  None \<Rightarrow> title_snippet render song_data
                | Some (JStr text) \<Rightarrow>
                    (let words = take 3 (py_split text)
                     in if 2 \<le> length words then Some (py_join '' '' words @ ''...'')
                        else title_snippet render song_data)
                | Some other \<Rightarrow> None)
           | _ \<Rightarrow> title_snippet render song_data))"

definition copyright_notice :: string where
  "copyright_notice =
     ''Testi protetti da copyright - visita genius_url per il contenuto completo''"

definition fair_use_notice :: string where
  "fair_use_notice = ''Solo metadati per identificazione - uso educativo/ricerca''"

definition snippet_disclaimer :: string where
  "snippet_disclaimer = ''Snippet minimale solo per identificazione (Fair Use)''"

text \<open>\<open>_extract_safe_metadata\<close>: the dictionary returned, in the order it is built.\<close>

definition extract_safe_metadata ::
  "(json \<Rightarrow> string) \<Rightarrow> json \<Rightarrow> pyerr + (string \<times> json) list" where
  "extract_safe_metadata render song_data =
     ebind (py_get song_data ''id'' JNull) (\<lambda>genius_id.
     ebind (py_get song_data ''title'' JNull) (\<lambda>song_title.
     ebind (ebind (py_get song_data ''primary_artist'' (JDict []))
              (\<lambda>pa. py_get pa ''name'' JNull)) (\<lambda>artist_nm.
     ebind (py_get song_data ''release_date_for_display'' JNull) (\<lambda>released.
     ebind (ebind (py_get song_data ''stats'' (JDict []))
              (\<lambda>st. py_get st ''pageviews'' JNull)) (\<lambda>page_views.
     ebind (py_get song_data ''url'' JNull) (\<lambda>url.
     ebind (ebind (py_get song_data ''album'' JNull)
              (\<lambda>alb. if py_truthy alb then py_get alb ''name'' JNull else Inr JNull))
           (\<lambda>album_nm.
     ebind (ebind (ebind (py_get song_data ''featured_artists'' (JList [])) py_iter)
              (mapE (\<lambda>featured. py_get featured ''name'' JNull))) (\<lambda>featured.
       (let safe_metadata =
              [(''genius_id'', genius_id),
               (''title'', song_title),
               (''artist_name'', artist_nm),
               (''release_date'', released),
               (''page_views'', page_views),
               (''genius_url'', url),
               (''album'', album_nm),
               (''featured_artists'', JList featured),
               (''copyright_notice'', JStr copyright_notice),
               (''fair_use_notice'', JStr fair_use_notice)]
        in case get_identification_snippet render song_data of
             None \<Rightarrow> Inr safe_metadata
           | Some snippet \<Rightarrow>
               if snippet \<noteq> [] then
                 Inr (safe_metadata @
                   [(''identification_snippet'', JStr snippet),
                    (''snippet_disclaimer'', JStr snippet_disclaimer)])
               else Inr safe_metadata)))))))))"

text \<open>
  \<open>search_song_metadata\<close>, given whether session and token are there and what the
  request came back with: the status code and the decoded body, or an exception.
\<close>

definition first_hit :: "json \<Rightarrow> pyerr + json option" where
  "first_hit body =
     ebind (ebind (py_get body ''response'' (JDict [])) (\<lambda>r. py_get r ''hits'' (JList [])))
       (\<lambda>hits.
          if py_truthy hits then
            (case hits of
               JList (h # hs) \<Rightarrow> ebind (py_get h ''result'' (JDict [])) (\<lambda>r. Inr (Some r))
             | JStr (c # cs) \<Rightarrow> ebind (py_get (JStr [c]) ''result'' (JDict [])) (\<lambda>r. Inr (Some r))
             | JDict kvs \<Rightarrow> Inl KeyError
             | _ \<Rightarrow> Inl TypeError)
          else Inr None)"

definition search_song_metadata ::
  "(json \<Rightarrow> string) \<Rightarrow> bool \<Rightarrow> (exn + int \<times> json) \<Rightarrow> (string \<times> json) list option" where
  "search_song_metadata render ready response =
     (if \<not> ready then None
      else
        (case response of
           Inl e \<Rightarrow> None
         | Inr (code, body) \<Rightarrow>
             if code = 200 then
               (case first_hit body of
                  Inl e \<Rightarrow> None
                | Inr None \<Rightarrow> None
                | Inr (Some song_data) \<Rightarrow>
                    (case extract_safe_metadata render song_data of
                       Inl e \<Rightarrow> None
                     | Inr safe_metadata \<Rightarrow> Some safe_metadata))
             else None))"




section \<open>The MusicBrainz client (services/musicbrainz_client.py)\<close>

text \<open>\<open>s.split(sep)\<close> for a one-character separator: empty parts are kept.\<close>

fun split_on :: "char \<Rightarrow> string \<Rightarrow> string list" where
  "split_on sep [] = [[]]"
| "split_on sep (c # cs) =
     (if c = sep then [] # split_on sep cs
      else (case split_on sep cs of
              [] \<Rightarrow> [[c]]
            | w # ws \<Rightarrow> (c # w) # ws))"

definition is_leap :: "int \<Rightarrow> bool" where
  "is_leap y = (y mod 4 = 0 \<and> (y mod 100 \<noteq> 0 \<or> y mod 400 = 0))"

definition days_in_month :: "int \<Rightarrow> int \<Rightarrow> int" where
  "days_in_month y m =
     (if m = 2 then (if is_leap y then 29 else 28)
      else if m = 4 \<or> m = 6 \<or> m = 9 \<or> m = 11 then 30
      else 31)"

definition fits_c_int :: "int \<Rightarrow> bool" where
  "fits_c_int i = (- (2 ^ 31) \<le> i \<and> i < 2 ^ 31)"

text \<open>
  \<open>date(y, m, d)\<close>: the interpreter's implementation takes the three arguments as C
  integers, which raises \<open>OverflowError\<close> for an argument out of that range; a triple
  that is no date of the years 1 to 9999 raises \<open>ValueError\<close>.
\<close>

definition mk_date :: "int \<Rightarrow> int \<Rightarrow> int \<Rightarrow> pyerr + pydate" where
  "mk_date y m d =
     (if \<not> (fits_c_int y \<and> fits_c_int m \<and> fits_c_int d) then Inl OverflowError
      else if 1 \<le> y \<and> y \<le> 9999 \<and> 1 \<le> m \<and> m \<le> 12 \<and> 1 \<le> d \<and> d \<le> days_in_month y m
        then Inr \<lparr>year = y, month = m, day = d\<rparr>
      else Inl ValueError)"

text \<open>
  The body of the \<open>try\<close> of \<open>_parse_date\<close> for a string: \<open>Inr None\<close> when no branch
  returns.
\<close>

definition date_of_parts :: "string list \<Rightarrow> pyerr + pydate option" where
  "date_of_parts date_parts =
     (case date_parts of
        [y] \<Rightarrow>
          ebind (py_int (JStr y)) (\<lambda>yi.
          ebind (mk_date yi 1 1) (\<lambda>dt. Inr (Some dt)))
      | [y, m] \<Rightarrow>
          ebind (py_int (JStr y)) (\<lambda>yi.
          ebind (py_int (JStr m)) (\<lambda>mi.
          ebind (mk_date yi mi 1) (\<lambda>dt. Inr (Some dt))))
      | [y, m, d] \<Rightarrow>
          ebind (py_int (JStr y)) (\<lambda>yi.
          ebind (py_int (JStr m)) (\<lambda>mi.
          ebind (py_int (JStr d)) (\<lambda>di.
          ebind (mk_date yi mi di) (\<lambda>dt. Inr (Some dt)))))
      | _ \<Rightarrow> Inr None)"

text \<open>
  \<open>_parse_date\<close>: a falsy argument gives \<open>None\<close>; only strings have \<open>split\<close>, and the
  \<open>except\<close> clause catches \<open>ValueError\<close> (and \<open>IndexError\<close>, which nothing here raises).
\<close>

definition parse_date :: "json \<Rightarrow> pyerr + pydate option" where
  "parse_date date_str =
     (if \<not> py_truthy date_str then Inr None
      else
        (case date_str of
           JStr s \<Rightarrow>
             (case date_of_parts (split_on (CHR ''-'') s) of
                Inl e \<Rightarrow> if e = ValueError then Inr None else Inl e
              | Inr r \<Rightarrow> Inr r)
         | _ \<Rightarrow> Inl AttributeError))"

text \<open>
  The validation that the model classes run on constructor arguments belongs to the
  validation library, and what it accepts for a string field besides a string differs
  between its versions: \<open>coerce\<close> stands for that part. A string is taken as it is;
  \<open>None\<close> is refused by a required field and kept by an optional one.
\<close>

definition validate_str :: "(json \<Rightarrow> string option) \<Rightarrow> json \<Rightarrow> pyerr + string" where
  "validate_str coerce v =
     (case v of
        JStr s \<Rightarrow> Inr s
      | JNull \<Rightarrow> Inl ValidationError
      | _ \<Rightarrow> (case coerce v of None \<Rightarrow> Inl ValidationError | Some s \<Rightarrow> Inr s))"

definition validate_opt_str :: "(json \<Rightarrow> string option) \<Rightarrow> json \<Rightarrow> pyerr + string option" where
  "validate_opt_str coerce v =
     (case v of
        JNull \<Rightarrow> Inr None
      | _ \<Rightarrow> ebind (validate_str coerce v) (\<lambda>s. Inr (Some s)))"

text \<open>\<open>_parse_artist\<close>.\<close>

definition parse_artist :: "(json \<Rightarrow> string option) \<Rightarrow> json \<Rightarrow> pyerr + Artist" where
  "parse_artist coerce artist_data =
     ebind (py_get artist_data ''name'' (JStr [])) (\<lambda>v_name.
     ebind (py_get artist_data ''sort-name'' JNull) (\<lambda>v_sort.
     ebind (py_get artist_data ''disambiguation'' JNull) (\<lambda>v_dis.
     ebind (py_get artist_data ''id'' JNull) (\<lambda>v_id.
     ebind (py_get artist_data ''country'' JNull) (\<lambda>v_country.
     ebind (ebind (ebind (py_get artist_data ''life-span'' (JDict []))
                     (\<lambda>ls. py_get ls ''begin'' JNull)) parse_date) (\<lambda>v_begin.
     ebind (ebind (ebind (py_get artist_data ''life-span'' (JDict []))
                     (\<lambda>ls. py_get ls ''end'' JNull)) parse_date) (\<lambda>v_end.
     ebind (py_get artist_data ''type'' JNull) (\<lambda>v_type.
     ebind (py_get artist_data ''gender'' JNull) (\<lambda>v_gender.
     ebind (validate_str coerce v_name) (\<lambda>a_name.
     ebind (validate_opt_str coerce v_sort) (\<lambda>a_sort.
     ebind (validate_opt_str coerce v_dis) (\<lambda>a_dis.
     ebind (validate_opt_str coerce v_id) (\<lambda>a_id.
     ebind (validate_opt_str coerce v_country) (\<lambda>a_country.
     ebind (validate_opt_str coerce v_type) (\<lambda>a_type.
     ebind (validate_opt_str coerce v_gender) (\<lambda>a_gender.
       Inr \<lparr>name = a_name, sort_name = a_sort, disambiguation = a_dis,
            artist_musicbrainz_id = a_id, artist_spotify_id = None,
            artist_lastfm_id = None, artist_country = a_country,
            begin_date = v_begin, end_date = v_end,
            artist_type = a_type, gender = a_gender\<rparr>))))))))))))))))"

text \<open>
  The calls into the MusicBrainz library: what each comes back with, a decoded
  response or an exception.
\<close>

record musicbrainz =
  search_artists :: "string \<Rightarrow> exn + json"
  browse_release_groups :: "string \<Rightarrow> exn + json"
  get_release_by_id :: "json \<Rightarrow> exn + json"

text \<open>
  \<open>MusicBrainzClient.search_artist\<close>: every exception, of the library call or of the
  parsing, ends in the \<open>except\<close> branch, which returns the empty list.
\<close>

definition search_artist ::
  "(json \<Rightarrow> string option) \<Rightarrow> musicbrainz \<Rightarrow> string \<Rightarrow> Artist list" where
  "search_artist coerce mb queried =
     (case search_artists mb queried of
        Inl e \<Rightarrow> []
      | Inr result \<Rightarrow>
          (case ebind (ebind (py_get result ''artist-list'' (JList [])) py_iter)
                  (mapE (parse_artist coerce)) of
             Inl e \<Rightarrow> []
           | Inr artists \<Rightarrow> artists))"

text \<open>
  \<open>_parse_track\<close>. The duration is converted inside a \<open>try\<close> that catches \<open>ValueError\<close>
  and \<open>TypeError\<close>; the position is converted outside of any. The track number of the
  model must be at least 1.
\<close>

definition parse_track :: "(json \<Rightarrow> string option) \<Rightarrow> json \<Rightarrow> pyerr + Track" where
  "parse_track coerce track_data =
     ebind (py_get track_data ''recording'' (JDict [])) (\<lambda>recording.
     ebind (py_get track_data ''length'' JNull) (\<lambda>len.
     ebind (if py_truthy len then
              (case ebind (py_getitem track_data ''length'') py_int of
                 Inr d \<Rightarrow> Inr (Some d)
               | Inl e \<Rightarrow> if e = ValueError \<or> e = TypeError then Inr None else Inl e)
            else Inr None) (\<lambda>dur.
     ebind (py_get track_data ''title'' (JStr [])) (\<lambda>fallback_title.
     ebind (py_get recording ''title'' fallback_title) (\<lambda>v_title.
     ebind (ebind (py_get track_data ''position'' (JInt 1)) py_int) (\<lambda>position.
     ebind (validate_str coerce v_title) (\<lambda>t_title.
       if 1 \<le> position then
         Inr \<lparr>title = t_title, track_number = position, duration_ms = dur, isrc = None,
              preview_available = False, explicit = False, lyrics_reference = None,
              genius_url = None\<rparr>
       else Inl ValidationError)))))))"

text \<open>The tracks of one medium, and of all media in turn.\<close>

definition medium_tracks :: "(json \<Rightarrow> string option) \<Rightarrow> json \<Rightarrow> pyerr + Track list" where
  "medium_tracks coerce medium =
     ebind (ebind (py_get medium ''track-list'' (JList [])) py_iter) (mapE (parse_track coerce))"

definition release_tracks :: "(json \<Rightarrow> string option) \<Rightarrow> json \<Rightarrow> pyerr + Track list" where
  "release_tracks coerce result =
     ebind (py_get result ''release'' (JDict [])) (\<lambda>release_data.
     ebind (ebind (py_get release_data ''medium-list'' (JList [])) py_iter) (\<lambda>media.
     ebind (mapE (medium_tracks coerce) media) (\<lambda>per_medium. Inr (concat per_medium))))"

text \<open>\<open>get_album_tracks\<close>: any exception gives the empty list.\<close>

definition get_album_tracks ::
  "(json \<Rightarrow> string option) \<Rightarrow> musicbrainz \<Rightarrow> json \<Rightarrow> Track list" where
  "get_album_tracks coerce mb release_id =
     (case get_release_by_id mb release_id of
        Inl e \<Rightarrow> []
      | Inr result \<Rightarrow>
          (case release_tracks coerce result of Inl e \<Rightarrow> [] | Inr ts \<Rightarrow> ts))"

text \<open>Lower case of a character below 256, as \<open>str.lower\<close> gives it.\<close>

definition lower_char :: "char \<Rightarrow> char" where
  "lower_char c =
     (let n = (of_char c :: nat)
      in if (65 \<le> n \<and> n \<le> 90) \<or> (192 \<le> n \<and> n \<le> 222 \<and> n \<noteq> 215) then char_of (n + 32)
         else c)"

definition py_lower :: "json \<Rightarrow> pyerr + string" where
  "py_lower v = (case v of JStr s \<Rightarrow> Inr (map lower_char s) | _ \<Rightarrow> Inl AttributeError)"

text \<open>\<open>releases[0]\<close> for a truthy value.\<close>

definition first_item :: "json \<Rightarrow> pyerr + json" where
  "first_item v =
     (case v of
        JList (x # xs) \<Rightarrow> Inr x
      | JStr (c # cs) \<Rightarrow> Inr (JStr [c])
      | JDict kvs \<Rightarrow> Inl KeyError
      | _ \<Rightarrow> Inl TypeError)"

text \<open>
  The constructor call \<open>Album(...)\<close> of \<open>_parse_release_group\<close>, with the validator
  that takes the release year from the release date when no year is passed.
\<close>

definition new_album ::
  "string \<Rightarrow> pydate option \<Rightarrow> string \<Rightarrow> string option \<Rightarrow> Track list \<Rightarrow> Album" where
  "new_album t rdate atype mbid ts =
     \<lparr>album_title = t, release_date = rdate,
      release_year = (case rdate of None \<Rightarrow> None | Some dt \<Rightarrow> Some (year dt)),
      album_type = atype, label = JNull, catalog_number = None, tracks = ts,
      album_musicbrainz_id = mbid, album_spotify_id = None, album_lastfm_id = None,
      genre = Some [], country = None\<rparr>"

text \<open>The body of the \<open>try\<close> of \<open>_parse_release_group\<close>.\<close>

definition release_group_album ::
  "(json \<Rightarrow> string option) \<Rightarrow> musicbrainz \<Rightarrow> json \<Rightarrow> pyerr + Album option" where
  "release_group_album coerce mb rg_data =
     ebind (py_get rg_data ''release-list'' (JList [])) (\<lambda>releases.
       if \<not> py_truthy releases then Inr None
       else
         ebind (first_item releases) (\<lambda>primary_release.
         ebind (py_get primary_release ''id'' JNull) (\<lambda>release_id.
           (let ts = (if py_truthy release_id then get_album_tracks coerce mb release_id else [])
            in ebind (py_get rg_data ''title'' (JStr [])) (\<lambda>v_title.
               ebind (ebind (py_get primary_release ''date'' JNull) parse_date) (\<lambda>rdate.
               ebind (ebind (py_get rg_data ''primary-type'' (JStr ''album'')) py_lower) (\<lambda>atype.
               ebind (py_get rg_data ''id'' JNull) (\<lambda>v_id.
               ebind (validate_str coerce v_title) (\<lambda>a_title.
               ebind (validate_opt_str coerce v_id) (\<lambda>a_id.
                 Inr (Some (new_album a_title rdate atype a_id ts))))))))))))"

text \<open>\<open>_parse_release_group\<close>: any exception gives \<open>None\<close>.\<close>

definition parse_release_group ::
  "(json \<Rightarrow> string option) \<Rightarrow> musicbrainz \<Rightarrow> json \<Rightarrow> Album option" where
  "parse_release_group coerce mb rg_data =
     (case release_group_album coerce mb rg_data of Inl e \<Rightarrow> None | Inr r \<Rightarrow> r)"

text \<open>The key of the sort: \<open>x.release_year or 0\<close>.\<close>

definition sort_year :: "Album \<Rightarrow> int" where
  "sort_year x = (case release_year x of None \<Rightarrow> 0 | Some y \<Rightarrow> if y = 0 then 0 else y)"

text \<open>
  The albums collected by the loop of \<open>get_artist_discography\<close>, before sorting: the
  release groups that parse to an album, in the order of the response.
\<close>

definition parsed_albums ::
  "(json \<Rightarrow> string option) \<Rightarrow> musicbrainz \<Rightarrow> json \<Rightarrow> pyerr + Album list" where
  "parsed_albums coerce mb result =
     ebind (ebind (py_get result ''release-group-list'' (JList [])) py_iter) (\<lambda>groups.
       Inr (List.map_filter (parse_release_group coerce mb) groups))"

text \<open>
  \<open>MusicBrainzClient.get_artist_discography\<close>. \<open>list.sort\<close> is a stable sort, and so is
  \<open>sort_key\<close>; a stable sort has one result only. Any exception gives the empty list.
\<close>

definition mb_get_artist_discography ::
  "(json \<Rightarrow> string option) \<Rightarrow> musicbrainz \<Rightarrow> string \<Rightarrow> Album list" where
  "mb_get_artist_discography coerce mb artist_id =
     (case browse_release_groups mb artist_id of
        Inl e \<Rightarrow> []
      | Inr result \<Rightarrow>
          (case parsed_albums coerce mb result of
             Inl e \<Rightarrow> []
           | Inr albs \<Rightarrow> sort_key sort_year albs))"

text \<open>The release year of an album is absent or a year that a date can have.\<close>

definition year_in_range :: "Album \<Rightarrow> bool" where
  "year_in_range a = (case release_year a of None \<Rightarrow> True | Some y \<Rightarrow> 1 \<le> y \<and> y \<le> 9999)"

section \<open>Example values\<close>

definition track_a :: Track where
  "track_a = \<lparr>title = ''Airbag'', track_number = 1, duration_ms = None, isrc = None,
     preview_available = False, explicit = False, lyrics_reference = None,
     genius_url = None\<rparr>"

definition track_b :: Track where
  "track_b = \<lparr>title = ''Paranoid Android'', track_number = 2, duration_ms = Some 383000,
     isrc = None, preview_available = False, explicit = False, lyrics_reference = None,
     genius_url = None\<rparr>"

definition track_c :: Track where
  "track_c = \<lparr>title = ''Let Down'', track_number = 5, duration_ms = None, isrc = None,
     preview_available = False, explicit = False, lyrics_reference = None,
     genius_url = None\<rparr>"

definition ok_computer :: Album where
  "ok_computer =
     \<lparr>album_title = ''OK Computer'', release_date = None, release_year = Some 1997,
      album_type = ''album'', label = JNull, catalog_number = None,
      tracks = [track_a, track_b], album_musicbrainz_id = None, album_spotify_id = None,
      album_lastfm_id = None, genre = Some [JStr ''rock''], country = None\<rparr>"

definition lastfm_payload :: json where
  "lastfm_payload =
     JDict [(''label'', JStr ''X''),
            (''tags'', JDict [(''tag'', JList [JDict [(''name'', JStr ''pop'')]])]),
            (''tracks'', JDict [(''track'', JList [JDict [(''duration'', JStr ''284'')]])])]"

text \<open>A payload whose \<open>tags.tag\<close> is one dictionary, not a list.\<close>

definition single_tag_payload :: json where
  "single_tag_payload = JDict [(''tags'', JDict [(''tag'', JDict [(''name'', JStr ''pop'')])])]"

text \<open>
  An operation that raises at every invocation and counts its invocations in the
  state, and a retry manager that allows 1025 retries.
\<close>

definition always_failing :: "nat \<Rightarrow> (string + unit) \<times> nat" where
  "always_failing n = (Inl ''timeout'', Suc n)"

definition overflow_manager :: RetryManager where
  "overflow_manager = \<lparr>max_retries = 1025, base_delay = 1, max_delay = 60\<rparr>"

text \<open>
  Worlds for a crawl: one where the search finds no candidate; one where the lookup for the
  first of two albums raises; one where the search is answered by the MusicBrainz client
  on top of a library whose every call fails.
\<close>

definition radiohead :: Artist where
  "radiohead = \<lparr>name = ''Radiohead'', sort_name = None, disambiguation = None,
     artist_musicbrainz_id = Some ''a74b1b7f'', artist_spotify_id = None,
     artist_lastfm_id = None, artist_country = None, begin_date = None, end_date = None,
     artist_type = None, gender = None\<rparr>"

definition kid_a :: Album where
  "kid_a =
     \<lparr>album_title = ''Kid A'', release_date = None, release_year = Some 2000,
      album_type = ''album'', label = JNull, catalog_number = None,
      tracks = [track_c], album_musicbrainz_id = None, album_spotify_id = None,
      album_lastfm_id = None, genre = Some [], country = None\<rparr>"

definition failing_library :: musicbrainz where
  "failing_library =
     \<lparr>search_artists = (\<lambda>q. Inl (OtherError ''NetworkError'' ''timed out'')),
      browse_release_groups = (\<lambda>i. Inl (OtherError ''NetworkError'' ''timed out'')),
      get_release_by_id = (\<lambda>i. Inl (OtherError ''NetworkError'' ''timed out''))\<rparr>"

definition no_coercion :: "json \<Rightarrow> string option" where
  "no_coercion v = None"

definition default_manager :: RetryManager where
  "default_manager = \<lparr>max_retries = 3, base_delay = 1, max_delay = 60\<rparr>"

definition amnesiac :: Album where
  "amnesiac = kid_a\<lparr>album_title := ''Amnesiac'', release_year := Some 2001\<rparr>"

definition the_bends :: Album where
  "the_bends = kid_a\<lparr>album_title := ''The Bends'', release_year := Some 1995\<rparr>"

text \<open>
  The crawler with the default limits (5 requests in 60 seconds, 3 retries) after it
  has made requests at the given times, so many of them successful and so many failed.
\<close>

definition served :: "string option \<Rightarrow> real list \<Rightarrow> int \<Rightarrow> int \<Rightarrow> crawler" where
  "served key stamps ok bad =
     \<lparr>rate_limiter = \<lparr>max_requests = 5, time_window = 60, requests = stamps, locked = False\<rparr>,
      retry_manager = default_manager,
      lastfm_api_key = key,
      requests_made = int (length stamps), requests_successful = ok, requests_failed = bad\<rparr>"

text \<open>
  Worlds without provider state in which a request is made every second. In the first
  the search finds nobody. In the second the search is answered by the MusicBrainz client
  on top of a library whose every call fails.
\<close>

definition empty_world :: "unit world" where
  "empty_world =
     \<lparr>now_started = 10, now_finished = 12, now_crawled = 11,
      clock_reading = (\<lambda>k. real k),
      search_artist_op = (\<lambda>q s. (Inr [], s)),
      get_artist_discography_op = (\<lambda>i s. (Inr [], s)),
      get_album_info_op = (\<lambda>a t s. (Inr JNull, s))\<rparr>"

definition offline_world :: "unit world" where
  "offline_world =
     \<lparr>now_started = 10, now_finished = 12, now_crawled = 11,
      clock_reading = (\<lambda>k. real k),
      search_artist_op = (\<lambda>q s. (Inr (search_artist no_coercion failing_library q), s)),
      get_artist_discography_op = (\<lambda>i s. (Inr [], s)),
      get_album_info_op = (\<lambda>a t s. (Inr JNull, s))\<rparr>"

text \<open>
  A world in which the search finds one artist, the backbone is the given list, and
  every provider call is answered at once: the lookup of \<open>Kid A\<close> returns no data, the
  lookup of \<open>Amnesiac\<close> raises at every attempt, every other lookup returns the payload.
\<close>

definition radiohead_world :: "Album list \<Rightarrow> unit world" where
  "radiohead_world backbone =
     \<lparr>now_started = 10, now_finished = 12, now_crawled = 11,
      clock_reading = (\<lambda>k. real k),
      search_artist_op = (\<lambda>q s. (Inr [radiohead], s)),
      get_artist_discography_op = (\<lambda>i s. (Inr backbone, s)),
      get_album_info_op =
        (\<lambda>a t s. (if t = ''Kid A'' then Inr JNull
                  else if t = ''Amnesiac''
                  then Inl (OtherError ''ClientError'' ''connection reset'')
                  else Inr lastfm_payload, s))\<rparr>"

text \<open>
  A MusicBrainz library with three release groups, the second without a date, and one
  release whose tracks can be fetched.
\<close>

definition demo_group_1 :: json where
  "demo_group_1 =
     JDict [(''title'', JStr ''OK Computer''), (''primary-type'', JStr ''Album''),
            (''release-list'',
               JList [JDict [(''id'', JStr ''r1''), (''date'', JStr ''1997-05-21'')]])]"

definition demo_group_2 :: json where
  "demo_group_2 =
     JDict [(''title'', JStr ''Untitled''),
            (''release-list'', JList [JDict [(''id'', JStr ''r2'')]])]"

definition demo_group_3 :: json where
  "demo_group_3 =
     JDict [(''title'', JStr ''Pablo Honey''),
            (''release-list'', JList [JDict [(''date'', JStr ''1993'')]])]"

definition demo_library :: musicbrainz where
  "demo_library =
     \<lparr>search_artists = (\<lambda>q. Inr (JDict [(''artist-list'',
          JList [JDict [(''name'', JStr ''Radiohead''), (''id'', JStr ''a74b1b7f'')]])])),
      browse_release_groups = (\<lambda>i. Inr (JDict [(''release-group-list'',
         JList [demo_group_1, demo_group_2, demo_group_3])])),
      get_release_by_id = (\<lambda>i.
         if i = JStr ''r1'' then
           Inr (JDict [(''release'', JDict [(''medium-list'', JList
             [JDict [(''track-list'', JList
                [JDict [(''position'', JStr ''1''), (''length'', JStr ''284000''),
                        (''recording'', JDict [(''title'', JStr ''Airbag'')])]])]])])])
         else Inl (OtherError ''NetworkError'' ''timed out''))\<rparr>"

text \<open>A world whose backbone comes from the MusicBrainz client on top of that library.\<close>

definition demo_world :: "unit world" where
  "demo_world =
     \<lparr>now_started = 10, now_finished = 12, now_crawled = 11,
      clock_reading = (\<lambda>k. real k),
      search_artist_op = (\<lambda>q s. (Inr [radiohead], s)),
      get_artist_discography_op =
        (\<lambda>i s. (case i of
                   None \<Rightarrow> Inr []
                 | Some aid \<Rightarrow> Inr (mb_get_artist_discography no_coercion demo_library aid), s)),
      get_album_info_op = (\<lambda>a t s. (Inr JNull, s))\<rparr>"





section \<open>Properties of the data model\<close>

lemma foldl_add_sum_list: "foldl (\<lambda>acc x. acc + x) a xs = a + sum_list xs" for a :: int
  by (induction xs arbitrary: a) simp_all

lemma py_sum_sum_list: "py_sum xs = sum_list xs"
  by (simp add: py_sum_def foldl_add_sum_list)

text \<open>
  C7: for every discography, \<open>total_tracks\<close> is the sum, over its albums, of the number
  of tracks of each album.
\<close>

theorem total_tracks_is_sum_of_track_counts:
  "total_tracks d = (\<Sum>a\<leftarrow>albums d. int (length (tracks a)))"
proof -
  have h: "map track_count (albums d) = map (\<lambda>a. int (length (tracks a))) (albums d)"
    by (simp add: track_count_def)
  show ?thesis by (simp only: total_tracks_def py_sum_sum_list h)
qed

section \<open>Properties of the track merge\<close>

lemma enhance_from_length:
  "enhance_from i mb lf = Inr res \<Longrightarrow> length res = length mb"
  by (induction mb arbitrary: i res) (auto split: sum.splits)

lemma enhance_from_nth:
  "enhance_from i mb lf = Inr res \<Longrightarrow> k < length mb \<Longrightarrow>
     enhance_at (i + k) (mb ! k) lf = Inr (res ! k)"
proof (induction mb arbitrary: i res k)
  case Nil
  then show ?case by simp
next
  case (Cons t ts)
  from Cons.prems(1) obtain r rs where
    h: "enhance_at i t lf = Inr r" and tl: "enhance_from (Suc i) ts lf = Inr rs"
    and res: "res = r # rs"
    by (auto split: sum.splits)
  show ?case
  proof (cases k)
    case 0
    with h res show ?thesis by simp
  next
    case (Suc n)
    with Cons.prems(2) have "n < length ts" by simp
    from Cons.IH [OF tl this] show ?thesis using Suc res by simp
  qed
qed

lemma enhance_pair_shape:
  "enhance_pair t x = Inr t' \<Longrightarrow>
     (\<exists>d. t' = t\<lparr>duration_ms := d\<rparr>) \<and> (\<not> duration_missing t \<longrightarrow> t' = t)"
proof -
  assume a: "enhance_pair t x = Inr t'"
  have "t = t\<lparr>duration_ms := duration_ms t\<rparr>" by simp
  then have same: "\<exists>d. t = t\<lparr>duration_ms := d\<rparr>" by (rule exI)
  from a show ?thesis
    using same by (auto simp: enhance_pair_def split: sum.splits if_splits bool.splits)
qed

lemma py_int_overflow: "py_int v = Inl OverflowError \<Longrightarrow> v = JFloat PosInf \<or> v = JFloat NegInf"
  apply (cases v) apply (auto split: option.splits)
  subgoal for f by (cases f) auto
  done

lemma py_int_errors:
  "py_int v = Inl e \<Longrightarrow> e = ValueError \<or> e = TypeError \<or> e = OverflowError"
  apply (cases v) apply (auto split: option.splits)
  subgoal for f by (cases f) auto
  done

lemma enhance_pair_total:
  "track_entry_ok x \<Longrightarrow> \<exists>t'. enhance_pair t x = Inr t'"
proof (cases x)
  case (JDict kvs)
  assume ok: "track_entry_ok x"
  show ?thesis
  proof (cases "map_of kvs ''duration''")
    case None
    then show ?thesis using JDict by (simp add: enhance_pair_def)
  next
    case (Some v)
    with ok JDict have "py_int v \<noteq> Inl OverflowError"
      using py_int_overflow by auto
    then show ?thesis using JDict Some py_int_errors [of v]
      by (cases "py_int v") (auto simp: enhance_pair_def)
  qed
qed auto

lemma enhance_from_total:
  "\<forall>x\<in>set lf. track_entry_ok x \<Longrightarrow> \<exists>res. enhance_from i mb lf = Inr res"
proof (induction mb arbitrary: i)
  case Nil
  then show ?case by simp
next
  case (Cons t ts)
  have "\<exists>t'. enhance_at i t lf = Inr t'"
    using Cons.prems enhance_pair_total by (auto simp: enhance_at_def)
  moreover have "\<exists>res. enhance_from (Suc i) ts lf = Inr res"
    using Cons by blast
  ultimately show ?case by auto
qed

lemma enhance_tracks_nth:
  assumes r: "enhance_tracks mb lf = Inr res" and i: "i < length mb"
  shows "(i < length lf \<longrightarrow> enhance_pair (mb ! i) (lf ! i) = Inr (res ! i)) \<and>
         (length lf \<le> i \<longrightarrow> res ! i = mb ! i) \<and>
         (\<exists>d. res ! i = (mb ! i)\<lparr>duration_ms := d\<rparr>)"
proof -
  from r have r': "enhance_from 0 mb lf = Inr res" by (simp add: enhance_tracks_def)
  from enhance_from_nth [OF r' i] have at: "enhance_at i (mb ! i) lf = Inr (res ! i)" by simp
  have "mb ! i = (mb ! i)\<lparr>duration_ms := duration_ms (mb ! i)\<rparr>" by simp
  then have same: "\<exists>d. mb ! i = (mb ! i)\<lparr>duration_ms := d\<rparr>" by (rule exI)
  show ?thesis
  proof (cases "i < length lf")
    case True
    with at have p: "enhance_pair (mb ! i) (lf ! i) = Inr (res ! i)"
      by (simp add: enhance_at_def)
    from enhance_pair_shape [OF p] True p show ?thesis by simp
  next
    case False
    with at have "res ! i = mb ! i" by (simp add: enhance_at_def)
    with False same show ?thesis by simp
  qed
qed

lemma enhance_tracks_length:
  "enhance_tracks mb lf = Inr res \<Longrightarrow> length res = length mb"
  unfolding enhance_tracks_def by (rule enhance_from_length)

text \<open>
  C6: the track merge is positional. Whenever \<open>_enhance_tracks\<close> returns, the result has
  as many tracks as the canonical list; the track at each position is the canonical
  track of that position paired with the enrichment track of the same position; a
  canonical track beyond the end of the enrichment list is unmodified; and every track
  keeps all its fields but the duration, so the order is the canonical one. It does
  return when the enrichment tracks are dictionaries whose durations are not infinite
  floats.
\<close>

theorem enhance_tracks_positional:
  "(\<forall>res. enhance_tracks mb lf = Inr res \<longrightarrow>
      length res = length mb \<and>
      (\<forall>i<length mb.
         (i < length lf \<longrightarrow> enhance_pair (mb ! i) (lf ! i) = Inr (res ! i)) \<and>
         (length lf \<le> i \<longrightarrow> res ! i = mb ! i) \<and>
         (\<exists>d. res ! i = (mb ! i)\<lparr>duration_ms := d\<rparr>)))
   \<and> ((\<forall>x\<in>set lf. track_entry_ok x) \<longrightarrow> (\<exists>res. enhance_tracks mb lf = Inr res))"
proof (rule conjI)
  show "\<forall>res. enhance_tracks mb lf = Inr res \<longrightarrow>
      length res = length mb \<and>
      (\<forall>i<length mb.
         (i < length lf \<longrightarrow> enhance_pair (mb ! i) (lf ! i) = Inr (res ! i)) \<and>
         (length lf \<le> i \<longrightarrow> res ! i = mb ! i) \<and>
         (\<exists>d. res ! i = (mb ! i)\<lparr>duration_ms := d\<rparr>))"
    using enhance_tracks_length enhance_tracks_nth by blast
  show "(\<forall>x\<in>set lf. track_entry_ok x) \<longrightarrow> (\<exists>res. enhance_tracks mb lf = Inr res)"
    unfolding enhance_tracks_def using enhance_from_total by blast
qed

theorem enhance_tracks_positional_witness:
  "enhance_tracks [track_a, track_b, track_c]
       [JDict [(''duration'', JStr ''284'')], JDict [(''duration'', JStr ''1'')]]
     = Inr [track_a\<lparr>duration_ms := Some 284000\<rparr>, track_b, track_c]
   \<and> length [track_a\<lparr>duration_ms := Some 284000\<rparr>, track_b, track_c]
       = length [track_a, track_b, track_c]
   \<and> [track_a\<lparr>duration_ms := Some 284000\<rparr>, track_b, track_c] ! 2 = track_c
   \<and> track_entry_ok (JDict [(''duration'', JStr ''284'')])
   \<and> track_entry_ok (JDict [(''duration'', JStr ''1'')])"
  using enhance_tracks_positional [of "[track_a, track_b, track_c]"
      "[JDict [(''duration'', JStr ''284'')], JDict [(''duration'', JStr ''1'')]]"]
  by (simp add: enhance_tracks_def enhance_at_def enhance_pair_def duration_missing_def
      track_a_def track_b_def track_c_def py_int_str_def py_strip_def is_int_space_def is_digit_def digit_val_def)

section \<open>Properties of the album merge\<close>

lemma merge_genre_frame:
  "merge_genre a d = Inr a' \<Longrightarrow> a' = a\<lparr>genre := genre a'\<rparr>"
  by (auto simp: merge_genre_def split: sum.splits option.splits json.splits)

lemma merge_genre_absent:
  "nested_entry d ''tags'' ''tag'' = Inr None \<Longrightarrow> merge_genre a d = Inr a' \<Longrightarrow> a' = a"
  by (simp add: merge_genre_def)

lemma merge_genre_list:
  "nested_entry d ''tags'' ''tag'' = Inr (Some (JList ts)) \<Longrightarrow> merge_genre a d = Inr a' \<Longrightarrow>
     \<exists>names. genre a' = Some names \<and>
       mapE (\<lambda>tag. py_get tag ''name'' (JStr [])) (take 5 ts) = Inr names"
  by (auto simp: merge_genre_def split: sum.splits)

lemma merge_genre_dict:
  "nested_entry d ''tags'' ''tag'' = Inr (Some (JDict kvs)) \<Longrightarrow> merge_genre a d = Inr a' \<Longrightarrow>
     \<exists>nm. genre a' = Some [nm] \<and> py_get (JDict kvs) ''name'' (JStr []) = Inr nm"
  by (auto simp: merge_genre_def split: sum.splits)

lemma merge_genre_other:
  "nested_entry d ''tags'' ''tag'' = Inr (Some v) \<Longrightarrow> merge_genre a d = Inr a' \<Longrightarrow>
     (\<forall>ts. v \<noteq> JList ts) \<Longrightarrow> (\<forall>kvs. v \<noteq> JDict kvs) \<Longrightarrow> a' = a"
  by (cases v) (auto simp: merge_genre_def)

lemma merge_label_frame:
  "merge_label a d = Inr a' \<Longrightarrow> a' = a\<lparr>label := label a'\<rparr>"
  by (auto simp: merge_label_def split: sum.splits if_splits bool.splits)

lemma merge_label_kept:
  "merge_label a d = Inr a' \<Longrightarrow> py_truthy (label a) \<Longrightarrow> a' = a"
  by (simp add: merge_label_def)

lemma merge_label_filled:
  "merge_label a d = Inr a' \<Longrightarrow> \<not> py_truthy (label a) \<Longrightarrow>
     py_contains ''label'' d = Inr True \<Longrightarrow> py_getitem d ''label'' = Inr (label a')"
  by (auto simp: merge_label_def split: sum.splits)

lemma merge_label_absent:
  "merge_label a d = Inr a' \<Longrightarrow> py_contains ''label'' d = Inr False \<Longrightarrow> a' = a"
  by (auto simp: merge_label_def split: if_splits)

lemma merge_tracks_frame:
  "merge_tracks a d = Inr a' \<Longrightarrow> a' = a\<lparr>tracks := tracks a'\<rparr>"
  by (auto simp: merge_tracks_def split: sum.splits option.splits json.splits)


lemma enhance_tracks_keeps:
  assumes r: "enhance_tracks mb lf = Inr res" and i: "i < length mb"
    and d: "\<not> duration_missing (mb ! i)"
  shows "res ! i = mb ! i"
proof (cases "i < length lf")
  case True
  with enhance_tracks_nth [OF r i] have "enhance_pair (mb ! i) (lf ! i) = Inr (res ! i)"
    by simp
  from enhance_pair_shape [OF this] d show ?thesis by simp
next
  case False
  with enhance_tracks_nth [OF r i] show ?thesis by simp
qed

lemma merge_tracks_tracks:
  assumes "merge_tracks a d = Inr a'"
  shows "length (tracks a') = length (tracks a) \<and>
         (\<forall>i<length (tracks a).
            (\<exists>dur. tracks a' ! i = (tracks a ! i)\<lparr>duration_ms := dur\<rparr>) \<and>
            (\<not> duration_missing (tracks a ! i) \<longrightarrow> tracks a' ! i = tracks a ! i))"
proof (cases "\<exists>lts. nested_entry d ''tracks'' ''track'' = Inr (Some (JList lts))")
  case True
  then obtain lts where n: "nested_entry d ''tracks'' ''track'' = Inr (Some (JList lts))"
    by blast
  with assms obtain ts where e: "enhance_tracks (tracks a) lts = Inr ts"
    and a': "tracks a' = ts"
    by (auto simp: merge_tracks_def split: sum.splits)
  show ?thesis
    using enhance_tracks_length [OF e] enhance_tracks_nth [OF e] enhance_tracks_keeps [OF e] a'
    by simp
next
  case False
  with assms have "a' = a"
    by (auto simp: merge_tracks_def split: sum.splits option.splits json.splits)
  moreover have "\<And>t::Track. t = t\<lparr>duration_ms := duration_ms t\<rparr>" by simp
  then have "\<And>t::Track. \<exists>dur. t = t\<lparr>duration_ms := dur\<rparr>" by (rule exI)
  ultimately show ?thesis by simp
qed

text \<open>
  What holds of every merge that returns. Every field of the album other than genre,
  label and tracks is the canonical one. A label that is present (truthy) is kept; a
  missing label is filled from the payload's label when the payload has one and is left
  as it is when the payload has none. The tracks stay as many and in the same order,
  each with all its fields but the duration, and a duration that is present (not \<open>None\<close>
  and not 0) is kept. The genre is kept when the payload has no \<open>tags.tag\<close> entry or one
  that is neither a list nor a dictionary; a list replaces it by the names of its first
  five tags and a dictionary by its one name, whether or not a genre was there.
\<close>

lemma merge_album_data_overlay:
  assumes "merge_album_data a d = Inr m"
  shows "m = a\<lparr>genre := genre m, label := label m, tracks := tracks m\<rparr>
     \<and> (py_truthy (label a) \<longrightarrow> label m = label a)
     \<and> (\<not> py_truthy (label a) \<longrightarrow> py_contains ''label'' d = Inr True \<longrightarrow>
          py_getitem d ''label'' = Inr (label m))
     \<and> (py_contains ''label'' d = Inr False \<longrightarrow> label m = label a)
     \<and> (nested_entry d ''tags'' ''tag'' = Inr None \<longrightarrow> genre m = genre a)
     \<and> (\<forall>ts. nested_entry d ''tags'' ''tag'' = Inr (Some (JList ts)) \<longrightarrow>
          (\<exists>names. genre m = Some names \<and>
             mapE (\<lambda>tag. py_get tag ''name'' (JStr [])) (take 5 ts) = Inr names))
     \<and> (\<forall>kvs. nested_entry d ''tags'' ''tag'' = Inr (Some (JDict kvs)) \<longrightarrow>
          (\<exists>nm. genre m = Some [nm] \<and> py_get (JDict kvs) ''name'' (JStr []) = Inr nm))
     \<and> (\<forall>v. nested_entry d ''tags'' ''tag'' = Inr (Some v) \<longrightarrow>
          (\<forall>ts. v \<noteq> JList ts) \<longrightarrow> (\<forall>kvs. v \<noteq> JDict kvs) \<longrightarrow> genre m = genre a)
     \<and> length (tracks m) = length (tracks a)
     \<and> (\<forall>i<length (tracks a).
          (\<exists>dur. tracks m ! i = (tracks a ! i)\<lparr>duration_ms := dur\<rparr>) \<and>
          (\<not> duration_missing (tracks a ! i) \<longrightarrow> tracks m ! i = tracks a ! i))"
proof -
  from assms obtain a1 a2 where
    g: "merge_genre a d = Inr a1" and l: "merge_label a1 d = Inr a2"
    and t: "merge_tracks a2 d = Inr m"
    by (auto simp: merge_album_data_def split: sum.splits)
  note fg = merge_genre_frame [OF g] and fl = merge_label_frame [OF l]
    and ft = merge_tracks_frame [OF t]
  have la1: "label a1 = label a" and ta1: "tracks a1 = tracks a"
    by (subst fg, simp)+
  have ga2: "genre a2 = genre a1" and ta2: "tracks a2 = tracks a1"
    by (subst fl, simp)+
  have gm: "genre m = genre a2" and lm: "label m = label a2"
    by (subst ft, simp)+
  have frame: "m = a\<lparr>genre := genre m, label := label m, tracks := tracks m\<rparr>"
    by (subst ft, subst fl, subst fg) (simp add: gm lm ga2)
  have kept: "py_truthy (label a) \<longrightarrow> label m = label a"
    using merge_label_kept [OF l] la1 lm by auto
  have filled: "\<not> py_truthy (label a) \<longrightarrow> py_contains ''label'' d = Inr True \<longrightarrow>
          py_getitem d ''label'' = Inr (label m)"
    using merge_label_filled [OF l] la1 lm by auto
  have absent: "py_contains ''label'' d = Inr False \<longrightarrow> label m = label a"
    using merge_label_absent [OF l] la1 lm by auto
  have gsame: "nested_entry d ''tags'' ''tag'' = Inr None \<longrightarrow> genre m = genre a"
    using merge_genre_absent [OF _ g] gm ga2 by auto
  have glist: "\<forall>ts. nested_entry d ''tags'' ''tag'' = Inr (Some (JList ts)) \<longrightarrow>
          (\<exists>names. genre m = Some names \<and>
             mapE (\<lambda>tag. py_get tag ''name'' (JStr [])) (take 5 ts) = Inr names)"
    using merge_genre_list [OF _ g] gm ga2 by auto
  have gdict: "\<forall>kvs. nested_entry d ''tags'' ''tag'' = Inr (Some (JDict kvs)) \<longrightarrow>
          (\<exists>nm. genre m = Some [nm] \<and> py_get (JDict kvs) ''name'' (JStr []) = Inr nm)"
    using merge_genre_dict [OF _ g] gm ga2 by auto
  have gother: "\<forall>v. nested_entry d ''tags'' ''tag'' = Inr (Some v) \<longrightarrow>
          (\<forall>ts. v \<noteq> JList ts) \<longrightarrow> (\<forall>kvs. v \<noteq> JDict kvs) \<longrightarrow> genre m = genre a"
    using merge_genre_other [OF _ g] gm ga2 by auto
  have tr: "length (tracks m) = length (tracks a) \<and> (\<forall>i<length (tracks a).
          (\<exists>dur. tracks m ! i = (tracks a ! i)\<lparr>duration_ms := dur\<rparr>) \<and>
          (\<not> duration_missing (tracks a ! i) \<longrightarrow> tracks m ! i = tracks a ! i))"
    using merge_tracks_tracks [OF t] ta2 ta1 by simp
  show ?thesis
    apply (rule conjI [OF frame])
    apply (rule conjI [OF kept])
    apply (rule conjI [OF filled])
    apply (rule conjI [OF absent])
    apply (rule conjI [OF gsame])
    apply (rule conjI [OF glist])
    apply (rule conjI [OF gdict])
    apply (rule conjI [OF gother])
    apply (rule tr)
    done
qed

text \<open>The two halves of the label example: a missing label is filled, a present one kept.\<close>

lemma merge_album_data_label_example:
  "merge_album_data (ok_computer\<lparr>label := JNull\<rparr>) (JDict [(''label'', JStr ''X'')])
     = Inr (ok_computer\<lparr>label := JStr ''X''\<rparr>)
   \<and> merge_album_data (ok_computer\<lparr>label := JStr ''Y''\<rparr>) (JDict [(''label'', JStr ''X'')])
     = Inr (ok_computer\<lparr>label := JStr ''Y''\<rparr>)"
  by (simp add: ok_computer_def merge_album_data_def merge_genre_def merge_label_def
      merge_tracks_def nested_entry_def)

lemmas example_defs = ok_computer_def lastfm_payload_def track_a_def track_b_def track_c_def

lemmas merge_defs = merge_album_data_def merge_genre_def merge_label_def merge_tracks_def
  nested_entry_def enhance_tracks_def enhance_at_def enhance_pair_def duration_missing_def
  py_int_str_def py_strip_def is_int_space_def is_digit_def digit_val_def

text \<open>
  C1 fails for the genre. The label step and the duration step test that the canonical
  value is missing before they write; the genre step has no such test. An album whose
  genre is \<open>['rock']\<close> comes out of the merge with the genre \<open>['pop']\<close> of the payload, both
  when the payload's \<open>tags.tag\<close> is a list and when it is a single dictionary; in the
  same merge the missing label and the missing duration are filled and the duration
  that is present is kept.
\<close>

theorem merge_album_data_overwrites_genre:
  "genre ok_computer = Some [JStr ''rock''] \<and>
   merge_album_data ok_computer lastfm_payload =
    Inr (ok_computer\<lparr>genre := Some [JStr ''pop''], label := JStr ''X'',
          tracks := [track_a\<lparr>duration_ms := Some 284000\<rparr>, track_b]\<rparr>) \<and>
   merge_album_data ok_computer single_tag_payload =
    Inr (ok_computer\<lparr>genre := Some [JStr ''pop'']\<rparr>)"
  by (simp add: example_defs single_tag_payload_def merge_defs)

section \<open>Properties of the retry loop\<close>

declare retry_from.simps [simp del]

lemma attempts_trace_step:
  "a < j \<Longrightarrow> attempts_trace rm a j =
     [Invoked, Slept (min (base_delay rm * 2 ^ a) (max_delay rm))] @ attempts_trace rm (Suc a) j"
  by (simp add: attempts_trace_def upt_conv_Cons)

lemma attempts_trace_last: "attempts_trace rm j j = [Invoked]"
  by (simp add: attempts_trace_def)

lemma retry_from_done:
  "max_retries rm < int a \<Longrightarrow> retry_from rm func a (Some e) s tr = (Inl (Reraised e), s, tr)"
  by (subst retry_from.simps) simp

lemma retry_from_run:
  assumes "a \<le> j" and "int j \<le> max_retries rm" and "j \<le> 1024"
    and "\<forall>i<j - a. \<exists>e. nth_outcome func s i = Inl e"
  shows "retry_from rm func a prev s tr =
     (case nth_outcome func s (j - a) of
        Inr v \<Rightarrow> (Inr v, nth_state func s (Suc (j - a)), tr @ attempts_trace rm a j)
      | Inl e \<Rightarrow>
          if int j = max_retries rm
          then (Inl (Reraised e), nth_state func s (Suc (j - a)), tr @ attempts_trace rm a j)
          else if j = 1024
          then (Inl DelayOverflow, nth_state func s (Suc (j - a)), tr @ attempts_trace rm a j)
          else retry_from rm func (Suc j) (Some e) (nth_state func s (Suc (j - a)))
                 (tr @ attempts_trace rm a j
                    @ [Slept (min (base_delay rm * 2 ^ j) (max_delay rm))]))"
  using assms
proof (induction "j - a" arbitrary: a s tr prev)
  case 0
  then have aj: "a = j" by simp
  obtain r s' where f: "func s = (r, s')" by (cases "func s")
  show ?case
    using aj f 0(3,4)
    by (subst retry_from.simps)
       (auto simp: nth_outcome_def attempts_trace_last backoff_delay_def retry_from_done
          split: sum.splits)
next
  case (Suc k)
  then have aj: "a < j" and k: "k = j - Suc a" by simp_all
  from Suc.prems(4) aj have "\<exists>e. nth_outcome func s 0 = Inl e"
    by (metis zero_less_diff)
  then obtain e s' where f: "func s = (Inl e, s')"
    by (cases "func s") (auto simp: nth_outcome_def)
  have shift: "nth_outcome func s' i = nth_outcome func s (Suc i)" for i
    using f by (simp add: nth_outcome_def)
  have shift2: "nth_state func s' i = nth_state func s (Suc i)" for i
    using f by simp
  have fails: "\<forall>i<j - Suc a. \<exists>e. nth_outcome func s' i = Inl e"
  proof (intro allI impI)
    fix i assume "i < j - Suc a"
    then have "Suc i < j - a" by simp
    with Suc.prems(4) show "\<exists>e. nth_outcome func s' i = Inl e"
      unfolding shift by blast
  qed
  have ih: "retry_from rm func (Suc a) (Some e) s'
               (tr @ [Invoked, Slept (min (base_delay rm * 2 ^ a) (max_delay rm))]) =
     (case nth_outcome func s' (j - Suc a) of
        Inr v \<Rightarrow> (Inr v, nth_state func s' (Suc (j - Suc a)),
                  (tr @ [Invoked, Slept (min (base_delay rm * 2 ^ a) (max_delay rm))])
                    @ attempts_trace rm (Suc a) j)
      | Inl e \<Rightarrow>
          if int j = max_retries rm
          then (Inl (Reraised e), nth_state func s' (Suc (j - Suc a)),
                  (tr @ [Invoked, Slept (min (base_delay rm * 2 ^ a) (max_delay rm))])
                    @ attempts_trace rm (Suc a) j)
          else if j = 1024
          then (Inl DelayOverflow, nth_state func s' (Suc (j - Suc a)),
                  (tr @ [Invoked, Slept (min (base_delay rm * 2 ^ a) (max_delay rm))])
                    @ attempts_trace rm (Suc a) j)
          else retry_from rm func (Suc j) (Some e) (nth_state func s' (Suc (j - Suc a)))
                 ((tr @ [Invoked, Slept (min (base_delay rm * 2 ^ a) (max_delay rm))])
                    @ attempts_trace rm (Suc a) j
                    @ [Slept (min (base_delay rm * 2 ^ j) (max_delay rm))]))"
    using Suc.hyps(1) [OF k] aj Suc.prems(2,3) fails by simp
  have sd: "Suc (j - Suc a) = j - a" using aj by simp
  have step: "retry_from rm func a prev s tr =
      retry_from rm func (Suc a) (Some e) s'
               (tr @ [Invoked, Slept (min (base_delay rm * 2 ^ a) (max_delay rm))])"
    using aj Suc.prems(2,3) f
    by (subst retry_from.simps) (simp add: backoff_delay_def)
  have tr1: "(tr @ [Invoked, Slept (min (base_delay rm * 2 ^ a) (max_delay rm))])
               @ attempts_trace rm (Suc a) j = tr @ attempts_trace rm a j"
    by (simp add: attempts_trace_step [OF aj])
  have tr2: "(tr @ [Invoked, Slept (min (base_delay rm * 2 ^ a) (max_delay rm))])
               @ attempts_trace rm (Suc a) j @ more = tr @ attempts_trace rm a j @ more" for more
    by (simp add: attempts_trace_step [OF aj])
  show ?case
    unfolding step ih shift shift2 sd tr1 tr2 by (rule refl)
qed


text \<open>
  What the claim says does hold up to 1024 retries. Let attempt \<open>j\<close> be the first that
  succeeds, or the last one allowed when all fail: the operation is invoked \<open>j + 1\<close>
  times, each attempt before \<open>j\<close> is followed by its sleep of
  \<open>min (base_delay * 2 ^ i) max_delay\<close>, and the result is the value of attempt \<open>j\<close>, or
  its exception raised again.
\<close>

lemma execute_with_retry_in_range:
  assumes "0 \<le> max_retries rm" and "max_retries rm \<le> 1024"
    and "int j \<le> max_retries rm"
    and "\<forall>i<j. \<exists>e. nth_outcome func s i = Inl e"
  shows "nth_outcome func s j = Inr v \<longrightarrow>
           execute_with_retry rm func s = (Inr v, nth_state func s (Suc j), attempts_trace rm 0 j)"
    and "int j = max_retries rm \<longrightarrow> nth_outcome func s j = Inl e \<longrightarrow>
           execute_with_retry rm func s =
             (Inl (Reraised e), nth_state func s (Suc j), attempts_trace rm 0 j)"
proof -
  have j: "j \<le> 1024" using assms(2,3) by linarith
  have run: "retry_from rm func 0 None s [] =
     (case nth_outcome func s (j - 0) of
        Inr v \<Rightarrow> (Inr v, nth_state func s (Suc (j - 0)), [] @ attempts_trace rm 0 j)
      | Inl e \<Rightarrow>
          if int j = max_retries rm
          then (Inl (Reraised e), nth_state func s (Suc (j - 0)), [] @ attempts_trace rm 0 j)
          else if j = 1024
          then (Inl DelayOverflow, nth_state func s (Suc (j - 0)), [] @ attempts_trace rm 0 j)
          else retry_from rm func (Suc j) (Some e) (nth_state func s (Suc (j - 0)))
                 ([] @ attempts_trace rm 0 j
                    @ [Slept (min (base_delay rm * 2 ^ j) (max_delay rm))]))"
    by (rule retry_from_run) (use assms j in simp_all)
  show "nth_outcome func s j = Inr v \<longrightarrow>
           execute_with_retry rm func s = (Inr v, nth_state func s (Suc j), attempts_trace rm 0 j)"
    by (simp add: execute_with_retry_def run)
  show "int j = max_retries rm \<longrightarrow> nth_outcome func s j = Inl e \<longrightarrow>
           execute_with_retry rm func s =
             (Inl (Reraised e), nth_state func s (Suc j), attempts_trace rm 0 j)"
    by (simp add: execute_with_retry_def run)
qed

lemma count_invoked: "length (filter (\<lambda>ev. ev = Invoked) (attempts_trace rm 0 j)) = Suc j"
  by (induction j) (simp_all add: attempts_trace_def)

lemma always_failing_state: "nth_state always_failing s k = s + k"
  by (induction k arbitrary: s) (simp_all add: always_failing_def)

lemma always_failing_outcome: "nth_outcome always_failing s k = Inl ''timeout''"
  by (simp add: nth_outcome_def always_failing_def)

text \<open>
  C2 at a failing input: with 1025 retries allowed and an operation that always
  raises, the run ends after 1025 invocations with the \<open>OverflowError\<close> of the delay
  computation, where the claim has 1026 invocations and the last exception of the
  operation raised again.
\<close>

theorem execute_with_retry_overflow:
  "fst (execute_with_retry overflow_manager always_failing 0) = Inl DelayOverflow \<and>
   fst (snd (execute_with_retry overflow_manager always_failing 0)) = 1025"
proof -
  have "retry_from overflow_manager always_failing 0 None 0 [] =
      (Inl DelayOverflow, nth_state always_failing 0 (Suc (1024 - 0)),
       [] @ attempts_trace overflow_manager 0 1024)"
    by (subst retry_from_run [where j = 1024])
       (simp_all add: always_failing_outcome overflow_manager_def)
  then show ?thesis
    by (simp add: execute_with_retry_def always_failing_state)
qed

section \<open>Properties of the rate limiter\<close>

lemma fold_min_in: "fold min rs (r::real) \<in> set (r # rs)"
proof (induction rs arbitrary: r)
  case Nil
  then show ?case by simp
next
  case (Cons x xs)
  have "fold min xs (min x r) \<in> set (min x r # xs)" by (rule Cons.IH)
  moreover have "min x r = x \<or> min x r = r" by (simp add: min_def)
  ultimately show ?case by auto
qed

lemma acquire_locked: "locked rl \<Longrightarrow> acquire rl clock = None"
  by (subst acquire.simps) simp

text \<open>
  What one call does when the lock is free: it records the call at once when fewer than
  \<open>max_requests\<close> calls are inside the window; it raises the \<open>ValueError\<close> of \<open>min\<close> of
  an empty list when the window is empty and the limit is not positive; in every other
  case it sleeps and then waits for its own lock, and never returns.
\<close>

lemma acquire_cases:
  assumes "\<not> locked rl"
  shows "acquire rl clock =
     (if int (length (kept_requests rl clock)) < max_requests rl
      then Some (Inr (), rl\<lparr>requests := kept_requests rl clock @ [clock]\<rparr>, clock)
      else if kept_requests rl clock = []
      then Some (Inl ValueError, rl\<lparr>requests := []\<rparr>, clock)
      else None)"
proof -
  have unlock: "rl\<lparr>requests := xs, locked := False\<rparr> = rl\<lparr>requests := xs\<rparr>" for xs
    using assms by (cases rl) simp
  show ?thesis
  proof (cases "int (length (kept_requests rl clock)) < max_requests rl")
    case True
    then show ?thesis using assms
      by (subst acquire.simps) (simp add: kept_requests_def Let_def unlock)
  next
    case False
    show ?thesis
    proof (cases "kept_requests rl clock")
      case Nil
      then show ?thesis using assms False
        by (subst acquire.simps) (simp add: kept_requests_def Let_def unlock)
    next
      case (Cons r rs)
      have "fold min rs r \<in> set (kept_requests rl clock)"
        using fold_min_in [of rs r] Cons by simp
      then have pos: "0 < real_of_int (time_window rl) - (clock - fold min rs r)"
        by (simp add: kept_requests_def)
      have inner: "acquire (rl\<lparr>requests := r # rs, locked := True\<rparr>) c = None" for c
        by (rule acquire_locked) simp
      show ?thesis using assms False Cons pos
        by (subst acquire.simps) (simp add: kept_requests_def Let_def inner)
    qed
  qed
qed

text \<open>
  A call that returns has recorded at once: the clock has not moved, and the recorded
  calls inside the window stay within the limit.
\<close>

lemma acquire_never_waits_and_records:
  assumes "\<not> locked rl" and "acquire rl clock = Some (Inr (), rl', clock')"
  shows "clock' = clock \<and> requests rl' = kept_requests rl clock @ [clock] \<and>
         int (length (requests rl')) \<le> max_requests rl"
  using assms(2) unfolding acquire_cases [OF assms(1)]
  by (auto split: if_splits)

text \<open>
  C3 at a failing input: a limiter of one request per 60 seconds records a first call at
  time 0; a second call at time 1 finds the window full, sleeps, calls \<open>acquire\<close> again
  while it still holds the lock, and never returns. The claim has it record the call
  once the oldest one has left the window.
\<close>

theorem acquire_second_call_never_returns:
  "acquire (new_limiter 1 60) 0 = Some (Inr (), (new_limiter 1 60)\<lparr>requests := [0]\<rparr>, 0) \<and>
   acquire ((new_limiter 1 60)\<lparr>requests := [0]\<rparr>) 1 = None \<and>
   acquire_all (new_limiter 1 60) 0 [0, 1] = None"
proof -
  have a: "acquire (new_limiter 1 60) 0 = Some (Inr (), (new_limiter 1 60)\<lparr>requests := [0]\<rparr>, 0)"
    by (subst acquire_cases) (simp_all add: new_limiter_def kept_requests_def)
  have b: "acquire ((new_limiter 1 60)\<lparr>requests := [0]\<rparr>) 1 = None"
    by (subst acquire_cases) (simp_all add: new_limiter_def kept_requests_def)
  from a b show ?thesis by simp
qed

section \<open>Properties of the aggregation engine\<close>

lemma sublist_failure_message: "sublist queried (failure_message queried cause)"
  unfolding sublist_def failure_message_def
  by (rule exI [of _ "''Fallimento nel crawling per '' @ [apostrophe]"],
      rule exI [of _ "[apostrophe] @ '': '' @ cause"]) simp

lemma execute_with_retry_first_success:
  assumes "0 \<le> max_retries rm" and "fst (func s) = Inr v"
  shows "execute_with_retry rm func s = (Inr v, snd (func s), [Invoked])"
proof -
  have "retry_from rm func 0 None s [] =
      (case nth_outcome func s (0 - 0) of
        Inr v \<Rightarrow> (Inr v, nth_state func s (Suc (0 - 0)), [] @ attempts_trace rm 0 0)
      | Inl e \<Rightarrow>
          if int 0 = max_retries rm
          then (Inl (Reraised e), nth_state func s (Suc (0 - 0)), [] @ attempts_trace rm 0 0)
          else if (0::nat) = 1024
          then (Inl DelayOverflow, nth_state func s (Suc (0 - 0)), [] @ attempts_trace rm 0 0)
          else retry_from rm func (Suc 0) (Some e) (nth_state func s (Suc (0 - 0)))
                 ([] @ attempts_trace rm 0 0
                    @ [Slept (min (base_delay rm * 2 ^ 0) (max_delay rm))]))"
    by (rule retry_from_run) (use assms in simp_all)
  then show ?thesis
    using assms(2) by (simp add: execute_with_retry_def nth_outcome_def attempts_trace_last)
qed

lemma nth_state_stateless: "nth_state (\<lambda>s. (r, s)) s k = s"
  by (induction k) simp_all

lemma execute_with_retry_always_raises:
  assumes "0 \<le> max_retries rm" and "max_retries rm \<le> 1024"
  shows "execute_with_retry rm (\<lambda>s. (Inl e, s)) s =
           (Inl (Reraised e), s, attempts_trace rm 0 (nat (max_retries rm)))"
proof -
  have "\<forall>i<nat (max_retries rm). \<exists>e'. nth_outcome (\<lambda>s. (Inl e, s)) s i = Inl e'"
    by (simp add: nth_outcome_def)
  from execute_with_retry_in_range(2) [OF assms _ this, of e]
  show ?thesis
    using assms(1) by (simp add: nth_outcome_def nth_state_stateless)
qed

text \<open>
  A request that the limiter admits is counted and run under the retry manager; a
  request that finds the window full never returns.
\<close>

lemma make_request_admitted:
  assumes "acquire (rate_limiter cr) now = Some (Inr (), rl, clock)"
  shows "make_request cr now func s =
     (case execute_with_retry (retry_manager cr) func s of
        (Inr result, s', trace) \<Rightarrow>
          Some (Inr result,
                cr\<lparr>rate_limiter := rl, requests_made := requests_made cr + 1,
                   requests_successful := requests_successful cr + 1\<rparr>, s')
      | (Inl e, s', trace) \<Rightarrow>
          Some (Inl (retry_raised e),
                cr\<lparr>rate_limiter := rl, requests_made := requests_made cr + 1,
                   requests_failed := requests_failed cr + 1\<rparr>, s'))"
  using assms
  by (cases "execute_with_retry (retry_manager cr) func s")
     (simp add: make_request_def Let_def split: sum.splits)

lemma make_request_blocked:
  assumes "\<not> locked (rate_limiter cr)"
    and "max_requests (rate_limiter cr) \<le> int (length (kept_requests (rate_limiter cr) now))"
    and "kept_requests (rate_limiter cr) now \<noteq> []"
  shows "make_request cr now func s = None"
  using assms by (simp add: make_request_def acquire_cases)

lemma make_request_keeps:
  assumes "make_request cr now func s = Some (res, cr', s')"
  shows "lastfm_api_key cr' = lastfm_api_key cr \<and> retry_manager cr' = retry_manager cr"
  using assms
  by (auto simp: make_request_def Let_def split: option.splits sum.splits prod.splits)

lemma served_new: "new_crawler key 5 60 3 = served key [] 0 0"
  by (simp add: new_crawler_def served_def new_limiter_def default_manager_def)

lemma served_key: "lastfm_api_key (served key ts ok bad) = key"
  by (simp add: served_def)

lemma served_acquire:
  assumes "length ts < 5" and "\<forall>t\<in>set ts. now - t < 60"
  shows "acquire (rate_limiter (served key ts ok bad)) now =
           Some (Inr (), (rate_limiter (served key ts ok bad))\<lparr>requests := ts @ [now]\<rparr>, now)"
proof -
  have k: "kept_requests (rate_limiter (served key ts ok bad)) now = ts"
    using assms(2) by (simp add: kept_requests_def served_def)
  show ?thesis
    by (subst acquire_cases) (use assms(1) in \<open>simp_all add: k\<close>, simp_all add: served_def)
qed

lemma served_returns:
  assumes "length ts < 5" and "\<forall>t\<in>set ts. now - t < 60"
  shows "make_request (served key ts ok bad) now (\<lambda>s. (Inr v, s)) s =
           Some (Inr v, served key (ts @ [now]) (ok + 1) bad, s)"
proof -
  have e: "execute_with_retry (retry_manager (served key ts ok bad)) (\<lambda>s. (Inr v, s)) s
             = (Inr v, s, [Invoked])"
    using execute_with_retry_first_success
      [of "retry_manager (served key ts ok bad)" "\<lambda>s. (Inr v, s)" s v]
    by (simp add: served_def default_manager_def)
  show ?thesis
    by (simp add: make_request_admitted [OF served_acquire [OF assms]] e) (simp add: served_def)
qed

lemma served_raises:
  assumes "length ts < 5" and "\<forall>t\<in>set ts. now - t < 60"
  shows "make_request (served key ts ok bad) now (\<lambda>s. (Inl e, s)) s =
           Some (Inl e, served key (ts @ [now]) ok (bad + 1), s)"
proof -
  have e: "execute_with_retry (retry_manager (served key ts ok bad)) (\<lambda>s. (Inl e, s)) s
             = (Inl (Reraised e), s,
                attempts_trace (retry_manager (served key ts ok bad)) 0
                  (nat (max_retries (retry_manager (served key ts ok bad)))))"
    by (rule execute_with_retry_always_raises) (simp_all add: served_def default_manager_def)
  show ?thesis
    by (simp add: make_request_admitted [OF served_acquire [OF assms]] e) (simp add: served_def)
qed

lemma served_blocked:
  assumes "5 \<le> length ts" and "\<forall>t\<in>set ts. now - t < 60"
  shows "make_request (served key ts ok bad) now func s = None"
proof -
  have k: "kept_requests (rate_limiter (served key ts ok bad)) now = ts"
    using assms(2) by (simp add: kept_requests_def served_def)
  have n: "ts \<noteq> []" using assms(1) by auto
  show ?thesis
    by (rule make_request_blocked) (use assms(1) n in \<open>simp_all add: k\<close>, simp_all add: served_def)
qed

text \<open>
  C5: when the search of the primary provider returns no candidate,
  \<open>get_artist_discography\<close> raises an error and returns no discography; the message of
  the error contains the queried name; the crawl status is marked failed, the message
  of the cause is appended to its errors, and its completion time is set.
\<close>

theorem artist_not_found:
  assumes "make_request cr (clock_reading w 0) (search_artist_op w queried) s
             = Some (Inr [], cr', s')"
  shows "get_artist_discography w cr queried s =
           Some ((Inl (CrawlerError (failure_message queried (not_found_message queried))),
                  mark_failed (now_finished w) (not_found_message queried)
                    (new_status queried (now_started w))), cr', s')
     \<and> sublist queried (failure_message queried (not_found_message queried))
     \<and> map_option (\<lambda>r. status (snd (fst r))) (get_artist_discography w cr queried s)
         = Some ''failed''
     \<and> map_option (\<lambda>r. errors (snd (fst r))) (get_artist_discography w cr queried s)
         = Some [not_found_message queried]
     \<and> map_option (\<lambda>r. completed_at (snd (fst r))) (get_artist_discography w cr queried s)
         = Some (Some (now_finished w))"
proof -
  have r: "get_artist_discography w cr queried s =
           Some ((Inl (CrawlerError (failure_message queried (not_found_message queried))),
                  mark_failed (now_finished w) (not_found_message queried)
                    (new_status queried (now_started w))), cr', s')"
    using assms by (simp add: get_artist_discography_def crawl_failed_def)
  show ?thesis
    unfolding r using sublist_failure_message
    by (simp add: mark_failed_def new_status_def)
qed

theorem artist_not_found_witness:
  "make_request (new_crawler None 5 60 3) (clock_reading empty_world 0)
     (search_artist_op empty_world ''Nobody'') () = Some (Inr [], served None [0] 1 0, ()) \<and>
   map_option (\<lambda>r. fst (fst r))
     (get_artist_discography empty_world (new_crawler None 5 60 3) ''Nobody'' ()) =
     Some (Inl (CrawlerError (failure_message ''Nobody'' (not_found_message ''Nobody'')))) \<and>
   map_option (\<lambda>r. status (snd (fst r)))
     (get_artist_discography empty_world (new_crawler None 5 60 3) ''Nobody'' ()) =
     Some ''failed'' \<and>
   map_option (\<lambda>r. completed_at (snd (fst r)))
     (get_artist_discography empty_world (new_crawler None 5 60 3) ''Nobody'' ()) =
     Some (Some 12)"
proof -
  have m: "make_request (new_crawler None 5 60 3) (clock_reading empty_world 0)
     (search_artist_op empty_world ''Nobody'') () = Some (Inr [], served None [0] 1 0, ())"
    by (simp add: served_new empty_world_def served_returns)
  from artist_not_found [OF m] m show ?thesis
    by (simp add: empty_world_def mark_failed_def new_status_def)
qed

lemma enhance_album_isolated:
  "enhance_album (Inl e) album = album"
  "\<not> py_truthy payload \<Longrightarrow> enhance_album (Inr payload) album = album"
  by (simp_all add: enhance_album_def)

lemma enhance_album_merged:
  "py_truthy payload \<Longrightarrow> merge_album_data album payload = Inr m \<Longrightarrow>
     enhance_album (Inr payload) album = m"
  by (simp add: enhance_album_def)

lemma enhance_albums_from_length:
  "enhance_albums_from w art k albs cr s = Some (enhanced, cr', s') \<Longrightarrow>
     length enhanced = length albs \<and> lastfm_api_key cr' = lastfm_api_key cr"
proof (induction albs arbitrary: k cr s enhanced)
  case Nil
  then show ?case by simp
next
  case (Cons a as)
  from Cons.prems obtain outcome cr1 s1 rest where
    m: "make_request cr (clock_reading w k) (get_album_info_op w (name art) (album_title a)) s
          = Some (outcome, cr1, s1)"
    and r: "enhance_albums_from w art (Suc k) as cr1 s1 = Some (rest, cr', s')"
    and e: "enhanced = enhance_album outcome a # rest"
    by (auto split: option.splits)
  from Cons.IH [OF r] make_request_keeps [OF m] e show ?case by simp
qed

text \<open>
  What holds of every crawl that returns a discography: the status is completed, the
  sources are the primary provider and, when a key is set, the secondary one, and the
  albums are as many as the backbone had.
\<close>

lemma crawl_result_shape:
  assumes "get_artist_discography w cr queried s = Some ((Inr disc, st), cr', s')"
  shows "status st = ''completed''
     \<and> sources disc = [''MusicBrainz'']
          @ (if key_missing (lastfm_api_key cr) then [] else [''Last.fm''])
     \<and> int (length (albums disc)) = albums_found st"
proof -
  from assms obtain primary others cr1 s1 mb_albums cr2 s2 enhanced where
    m1: "make_request cr (clock_reading w 0) (search_artist_op w queried) s
           = Some (Inr (primary # others), cr1, s1)"
    and m2: "make_request cr1 (clock_reading w 1)
               (get_artist_discography_op w (artist_musicbrainz_id primary)) s1
           = Some (Inr mb_albums, cr2, s2)"
    and en: "enhance_with_lastfm w primary mb_albums cr2 s2 = Some (enhanced, cr', s')"
    and res: "(Inr disc, st) =
       crawl_completed w cr' ((new_status queried (now_started w))
         \<lparr>albums_found := int (length mb_albums)\<rparr>) primary enhanced"
    by (auto simp: get_artist_discography_def crawl_failed_def Let_def
          split: option.splits sum.splits list.splits)
  have key2: "lastfm_api_key cr2 = lastfm_api_key cr"
    using make_request_keeps [OF m1] make_request_keeps [OF m2] by simp
  have "length enhanced = length mb_albums \<and> lastfm_api_key cr' = lastfm_api_key cr2"
    using en enhance_albums_from_length [of w primary 2 mb_albums cr2 s2 enhanced cr' s']
    by (auto simp: enhance_with_lastfm_def split: if_splits)
  with res key2 show ?thesis
    by (simp add: crawl_completed_def Let_def mark_completed_def)
qed

text \<open>
  C4 fails for a crawl of four albums. The crawler has the default limits and a
  secondary-provider key, every provider call is answered at once and a request is made
  every second. With a backbone of three albums the crawl makes five requests and
  completes: the album whose lookup returns no data and the album whose lookup raises
  are the backbone's, the album whose lookup succeeds is merged, and the sources are
  both providers. With a fourth album the crawl makes a sixth request inside the
  window, which the limiter never lets go: the crawl does not complete, and no
  discography is returned.
\<close>

theorem crawl_of_four_albums_never_returns:
  "get_artist_discography (radiohead_world [kid_a, amnesiac, ok_computer])
     (new_crawler (Some ''key'') 5 60 3) ''Radiohead'' ()
    = Some ((Inr \<lparr>artist = radiohead,
                  albums = [kid_a, amnesiac,
                            ok_computer\<lparr>genre := Some [JStr ''pop''], label := JStr ''X'',
                              tracks := [track_a\<lparr>duration_ms := Some 284000\<rparr>, track_b]\<rparr>],
                  crawled_at = 11, sources = [''MusicBrainz'', ''Last.fm''],
                  metadata = Some (JDict [])\<rparr>,
             (new_status ''Radiohead'' 10)
               \<lparr>albums_found := 3, tracks_found := 4, status := ''completed'',
                completed_at := Some 12\<rparr>),
            served (Some ''key'') [0, 1, 2, 3, 4] 4 1, ())
   \<and> get_artist_discography (radiohead_world [kid_a, amnesiac, ok_computer, the_bends])
       (new_crawler (Some ''key'') 5 60 3) ''Radiohead'' () = None"
proof -
  have merged: "enhance_album (Inr lastfm_payload) ok_computer =
      ok_computer\<lparr>genre := Some [JStr ''pop''], label := JStr ''X'',
        tracks := [track_a\<lparr>duration_ms := Some 284000\<rparr>, track_b]\<rparr>"
    by (rule enhance_album_merged)
       (simp_all add: example_defs merge_defs)
  have titles: "album_title kid_a = ''Kid A''" "album_title amnesiac = ''Amnesiac''"
    "album_title ok_computer = ''OK Computer''" "album_title the_bends = ''The Bends''"
    by (simp_all add: kid_a_def amnesiac_def ok_computer_def the_bends_def)
  have counts: "length (tracks kid_a) = 1" "length (tracks amnesiac) = 1"
    by (simp_all add: kid_a_def amnesiac_def)
  have three: "get_artist_discography (radiohead_world [kid_a, amnesiac, ok_computer])
     (new_crawler (Some ''key'') 5 60 3) ''Radiohead'' ()
    = Some ((Inr \<lparr>artist = radiohead,
                  albums = [kid_a, amnesiac,
                            ok_computer\<lparr>genre := Some [JStr ''pop''], label := JStr ''X'',
                              tracks := [track_a\<lparr>duration_ms := Some 284000\<rparr>, track_b]\<rparr>],
                  crawled_at = 11, sources = [''MusicBrainz'', ''Last.fm''],
                  metadata = Some (JDict [])\<rparr>,
             (new_status ''Radiohead'' 10)
               \<lparr>albums_found := 3, tracks_found := 4, status := ''completed'',
                completed_at := Some 12\<rparr>),
            served (Some ''key'') [0, 1, 2, 3, 4] 4 1, ())"
    by (simp add: get_artist_discography_def radiohead_world_def served_new served_returns
          served_raises enhance_with_lastfm_def key_missing_def titles enhance_album_isolated
          merged crawl_completed_def py_sum_def counts mark_completed_def Let_def
          served_key)
  have four: "get_artist_discography (radiohead_world [kid_a, amnesiac, ok_computer, the_bends])
       (new_crawler (Some ''key'') 5 60 3) ''Radiohead'' () = None"
    by (simp add: get_artist_discography_def radiohead_world_def served_new served_returns
          served_raises served_blocked enhance_with_lastfm_def key_missing_def titles
          served_key)
  from three four show ?thesis by (rule conjI)
qed


section \<open>Properties of the MusicBrainz client\<close>

lemma search_artist_library_error:
  "search_artists mb queried = Inl e \<Longrightarrow> search_artist coerce mb queried = []"
  by (simp add: search_artist_def)

lemma search_artist_empty_result:
  "search_artists mb queried = Inr (JDict [(''artist-list'', JList [])]) \<Longrightarrow>
     search_artist coerce mb queried = []"
  by (simp add: search_artist_def ebind_def)

text \<open>
  C9: whatever exception the library call raises, \<open>search_artist\<close> returns the empty
  list, as it does for a response without candidates; the retry manager sees a
  successful first attempt and invokes it once; and the crawl whose search request the
  limiter admits ends in the not-found error, with the status marked failed and the
  request counted as successful.
\<close>

theorem search_failure_reads_as_not_found:
  assumes lib: "search_artists mb queried = Inl e"
    and eng: "search_artist_op w queried = (\<lambda>s. (Inr (search_artist coerce mb queried), s))"
    and pos: "0 \<le> max_retries (retry_manager cr)"
    and adm: "acquire (rate_limiter cr) (clock_reading w 0) = Some (Inr (), rl, clock)"
  shows "search_artist coerce mb queried = []
     \<and> search_artist coerce
          (mb\<lparr>search_artists := (\<lambda>q. Inr (JDict [(''artist-list'', JList [])]))\<rparr>) queried
        = search_artist coerce mb queried
     \<and> execute_with_retry (retry_manager cr) (search_artist_op w queried) s0
        = (Inr [], s0, [Invoked])
     \<and> get_artist_discography w cr queried s0 =
           Some ((Inl (CrawlerError (failure_message queried (not_found_message queried))),
                  mark_failed (now_finished w) (not_found_message queried)
                    (new_status queried (now_started w))),
                 cr\<lparr>rate_limiter := rl, requests_made := requests_made cr + 1,
                    requests_successful := requests_successful cr + 1\<rparr>, s0)"
proof -
  have e: "search_artist coerce mb queried = []"
    using lib by (rule search_artist_library_error)
  have same: "search_artist coerce
          (mb\<lparr>search_artists := (\<lambda>q. Inr (JDict [(''artist-list'', JList [])]))\<rparr>) queried = []"
    by (rule search_artist_empty_result) simp
  have once: "execute_with_retry (retry_manager cr) (search_artist_op w queried) s0
        = (Inr [], s0, [Invoked])"
    using execute_with_retry_first_success
      [OF pos, of "\<lambda>s. (Inr (search_artist coerce mb queried), s)" s0 "[]"] e eng
    by simp
  have req: "make_request cr (clock_reading w 0) (search_artist_op w queried) s0 =
      Some (Inr [], cr\<lparr>rate_limiter := rl, requests_made := requests_made cr + 1,
                    requests_successful := requests_successful cr + 1\<rparr>, s0)"
    by (simp add: make_request_admitted [OF adm] once)
  have crawl: "get_artist_discography w cr queried s0 =
           Some ((Inl (CrawlerError (failure_message queried (not_found_message queried))),
                  mark_failed (now_finished w) (not_found_message queried)
                    (new_status queried (now_started w))),
                 cr\<lparr>rate_limiter := rl, requests_made := requests_made cr + 1,
                    requests_successful := requests_successful cr + 1\<rparr>, s0)"
    by (simp add: get_artist_discography_def req crawl_failed_def)
  from e same once crawl show ?thesis by simp
qed

theorem search_failure_reads_as_not_found_witness:
  "search_artists failing_library ''Radiohead'' = Inl (OtherError ''NetworkError'' ''timed out'')
   \<and> search_artist_op offline_world ''Radiohead''
       = (\<lambda>s. (Inr (search_artist no_coercion failing_library ''Radiohead''), s))
   \<and> 0 \<le> max_retries (retry_manager (served None [] 0 0))
   \<and> acquire (rate_limiter (served None [] 0 0)) (clock_reading offline_world 0)
       = Some (Inr (), (rate_limiter (served None [] 0 0))\<lparr>requests := [0]\<rparr>, 0)
   \<and> search_artist no_coercion failing_library ''Radiohead'' = []
   \<and> map_option (\<lambda>r. fst (fst r))
       (get_artist_discography offline_world (served None [] 0 0) ''Radiohead'' ()) =
       Some (Inl (CrawlerError (failure_message ''Radiohead'' (not_found_message ''Radiohead''))))
   \<and> map_option (\<lambda>r. requests_failed (fst (snd r)))
       (get_artist_discography offline_world (served None [] 0 0) ''Radiohead'' ()) = Some 0"
proof -
  have lib: "search_artists failing_library ''Radiohead''
      = Inl (OtherError ''NetworkError'' ''timed out'')"
    by (simp add: failing_library_def)
  have eng: "search_artist_op offline_world ''Radiohead''
       = (\<lambda>s. (Inr (search_artist no_coercion failing_library ''Radiohead''), s))"
    by (simp add: offline_world_def)
  have pos: "0 \<le> max_retries (retry_manager (served None [] 0 0))"
    by (simp add: served_def default_manager_def)
  have adm: "acquire (rate_limiter (served None [] 0 0)) (clock_reading offline_world 0)
       = Some (Inr (), (rate_limiter (served None [] 0 0))\<lparr>requests := [0]\<rparr>, 0)"
    using served_acquire [of "[]" 0 None 0 0] by (simp add: offline_world_def)
  note th = search_failure_reads_as_not_found [OF lib eng pos adm, of "()"]
  from th have a: "search_artist no_coercion failing_library ''Radiohead'' = []"
    by (rule conjunct1)
  from th have b: "get_artist_discography offline_world (served None [] 0 0) ''Radiohead'' () =
      Some ((Inl (CrawlerError (failure_message ''Radiohead'' (not_found_message ''Radiohead''))),
             mark_failed (now_finished offline_world) (not_found_message ''Radiohead'')
               (new_status ''Radiohead'' (now_started offline_world))),
            (served None [] 0 0)
              \<lparr>rate_limiter := (rate_limiter (served None [] 0 0))\<lparr>requests := [0]\<rparr>,
               requests_made := requests_made (served None [] 0 0) + 1,
               requests_successful := requests_successful (served None [] 0 0) + 1\<rparr>, ())"
    by blast
  have c: "map_option (\<lambda>r. fst (fst r))
       (get_artist_discography offline_world (served None [] 0 0) ''Radiohead'' ()) =
       Some (Inl (CrawlerError (failure_message ''Radiohead'' (not_found_message ''Radiohead''))))"
    unfolding b by simp
  have d: "map_option (\<lambda>r. requests_failed (fst (snd r)))
       (get_artist_discography offline_world (served None [] 0 0) ''Radiohead'' ()) = Some 0"
    unfolding b by (simp add: served_def)
  from lib eng pos adm a c d show ?thesis by blast
qed

lemma ebind_Inr: "ebind m f = Inr v \<longleftrightarrow> (\<exists>x. m = Inr x \<and> f x = Inr v)"
  by (cases m) (simp_all add: ebind_def)

lemma mk_date_year: "mk_date y m d = Inr dt \<Longrightarrow> 1 \<le> year dt \<and> year dt \<le> 9999"
  by (auto simp: mk_date_def split: if_splits)

lemma date_of_parts_year:
  "date_of_parts ps = Inr (Some dt) \<Longrightarrow> 1 \<le> year dt \<and> year dt \<le> 9999"
  by (auto simp: date_of_parts_def ebind_Inr split: list.splits dest: mk_date_year)

lemma parse_date_year:
  "parse_date v = Inr (Some dt) \<Longrightarrow> 1 \<le> year dt \<and> year dt \<le> 9999"
  by (auto simp: parse_date_def split: if_splits json.splits sum.splits dest: date_of_parts_year)

lemma new_album_year:
  "(\<And>dt. rdate = Some dt \<Longrightarrow> 1 \<le> year dt \<and> year dt \<le> 9999) \<Longrightarrow>
     year_in_range (new_album t rdate atype mbid ts)"
  by (cases rdate) (simp_all add: year_in_range_def new_album_def)

lemma release_group_album_year:
  assumes "release_group_album coerce mb rg_data = Inr (Some a)"
  shows "year_in_range a"
proof -
  from assms obtain t rdate atype mbid ts v where
    a: "a = new_album t rdate atype mbid ts" and p: "parse_date v = Inr rdate"
    by (auto simp: release_group_album_def ebind_Inr Let_def split: if_splits)
  show ?thesis unfolding a
    by (rule new_album_year) (use p parse_date_year in blast)
qed

lemma parse_release_group_year:
  "parse_release_group coerce mb rg_data = Some a \<Longrightarrow> year_in_range a"
  by (auto simp: parse_release_group_def split: sum.splits dest: release_group_album_year)

lemma map_filter_member:
  "a \<in> set (List.map_filter f xs) \<Longrightarrow> \<exists>x\<in>set xs. f x = Some a"
  by (induction xs) (auto split: option.splits)

lemma parsed_albums_year:
  "parsed_albums coerce mb result = Inr albs \<Longrightarrow> \<forall>a\<in>set albs. year_in_range a"
  by (auto simp: parsed_albums_def ebind_Inr dest!: map_filter_member
      dest: parse_release_group_year)

lemma mb_discography_cases:
  "mb_get_artist_discography coerce mb aid = [] \<or>
   (\<exists>result albs. browse_release_groups mb aid = Inr result \<and>
      parsed_albums coerce mb result = Inr albs \<and>
      mb_get_artist_discography coerce mb aid = sort_key sort_year albs)"
  by (auto simp: mb_get_artist_discography_def split: sum.splits)

lemma mb_discography_year:
  "\<forall>a\<in>set (mb_get_artist_discography coerce mb aid). year_in_range a"
  using mb_discography_cases [of coerce mb aid] parsed_albums_year
  by (metis empty_iff list.set(1) set_sort)

lemma mb_discography_sorted_key:
  "sorted (map sort_year (mb_get_artist_discography coerce mb aid))"
  using mb_discography_cases [of coerce mb aid] by (auto simp: sorted_sort_key)

lemma sort_year_in_range:
  "year_in_range a \<Longrightarrow>
     sort_year a = (case release_year a of None \<Rightarrow> 0 | Some y \<Rightarrow> y) \<and>
     (release_year a = None \<longleftrightarrow> sort_year a = 0)"
  by (auto simp: year_in_range_def sort_year_def split: option.splits)

lemma yearless_first:
  assumes srt: "sorted (map sort_year R)" and yr: "\<forall>a\<in>set R. year_in_range a"
    and i: "i < length R" and j: "j < length R"
    and ni: "release_year (R ! i) = None" and nj: "release_year (R ! j) \<noteq> None"
  shows "i < j"
proof (rule ccontr)
  assume "\<not> i < j"
  then have "j \<le> i" by simp
  with srt i have "sort_year (R ! j) \<le> sort_year (R ! i)"
    by (simp add: sorted_iff_nth_mono)
  moreover have "sort_year (R ! i) = 0"
    using ni by (simp add: sort_year_def)
  moreover have "1 \<le> sort_year (R ! j)"
    using nj yr j by (auto simp: year_in_range_def sort_year_def split: option.splits)
  ultimately show False by simp
qed


lemma merge_album_data_release_year:
  assumes "merge_album_data a d = Inr m"
  shows "release_year m = release_year a"
proof -
  from assms obtain a1 a2 where
    g: "merge_genre a d = Inr a1" and l: "merge_label a1 d = Inr a2"
    and t: "merge_tracks a2 d = Inr m"
    by (auto simp: merge_album_data_def split: sum.splits)
  have "release_year a1 = release_year a" by (subst merge_genre_frame [OF g]) simp
  moreover have "release_year a2 = release_year a1" by (subst merge_label_frame [OF l]) simp
  moreover have "release_year m = release_year a2" by (subst merge_tracks_frame [OF t]) simp
  ultimately show ?thesis by simp
qed

lemma enhance_album_release_year:
  "release_year (enhance_album outcome album) = release_year album"
  by (auto simp: enhance_album_def merge_album_data_release_year split: sum.splits)

lemma enhance_albums_from_release_year:
  "enhance_albums_from w art k albs cr s = Some (enhanced, cr', s') \<Longrightarrow>
     map release_year enhanced = map release_year albs"
proof (induction albs arbitrary: k cr s enhanced)
  case Nil
  then show ?case by simp
next
  case (Cons a as)
  from Cons.prems obtain outcome cr1 s1 rest where
    r: "enhance_albums_from w art (Suc k) as cr1 s1 = Some (rest, cr', s')"
    and e: "enhanced = enhance_album outcome a # rest"
    by (auto split: option.splits)
  from Cons.IH [OF r] e show ?case by (simp add: enhance_album_release_year)
qed

lemma enhance_with_lastfm_release_year:
  "enhance_with_lastfm w art albs cr s = Some (enhanced, cr', s') \<Longrightarrow>
     map release_year enhanced = map release_year albs"
  using enhance_albums_from_release_year [of w art 2 albs cr s enhanced cr' s']
  by (auto simp: enhance_with_lastfm_def split: if_splits)

lemma crawl_keeps_years:
  assumes m1: "make_request cr (clock_reading w 0) (search_artist_op w queried) s
                 = Some (Inr (primary # others), cr1, s1)"
    and m2: "make_request cr1 (clock_reading w 1)
               (get_artist_discography_op w (artist_musicbrainz_id primary)) s1
                 = Some (Inr R, cr2, s2)"
  shows "(get_artist_discography w cr queried s = None \<or>
          (\<exists>disc st cr3 s3. get_artist_discography w cr queried s = Some ((Inr disc, st), cr3, s3)
             \<and> map release_year (albums disc) = map release_year R))
     \<and> (key_missing (lastfm_api_key cr) \<longrightarrow> get_artist_discography w cr queried s \<noteq> None)"
proof -
  have key2: "lastfm_api_key cr2 = lastfm_api_key cr"
    using make_request_keeps [OF m1] make_request_keeps [OF m2] by simp
  have g: "get_artist_discography w cr queried s =
      (case enhance_with_lastfm w primary R cr2 s2 of
         None \<Rightarrow> None
       | Some (enhanced_albums, cr3, s3) \<Rightarrow>
           Some (crawl_completed w cr3 ((new_status queried (now_started w))
                   \<lparr>albums_found := int (length R)\<rparr>) primary enhanced_albums, cr3, s3))"
    using m2 by (simp add: get_artist_discography_def m1 Let_def)
  show ?thesis
  proof (cases "enhance_with_lastfm w primary R cr2 s2")
    case None
    then have "\<not> key_missing (lastfm_api_key cr)"
      using key2 by (auto simp: enhance_with_lastfm_def split: if_splits)
    with None g show ?thesis by simp
  next
    case (Some r)
    then obtain enhanced cr3 s3 where
      r: "enhance_with_lastfm w primary R cr2 s2 = Some (enhanced, cr3, s3)"
      by (cases r) auto
    from enhance_with_lastfm_release_year [OF r] g r show ?thesis
      by (simp add: crawl_completed_def Let_def)
  qed
qed

text \<open>
  C10: the list returned by \<open>MusicBrainzClient.get_artist_discography\<close> is sorted in
  non-decreasing order of the release year with a missing year counted as 0; every year
  present is at least 1, so the albums without a year come first; the list is a
  rearrangement of the albums parsed; and a crawl whose backbone request returns this
  list either never returns or returns a discography whose albums have the same release
  years in the same order, and it does return when no secondary-provider key is set.
\<close>

theorem mb_discography_sorted_by_year:
  "sorted (map sort_year (mb_get_artist_discography coerce mb aid))
   \<and> (\<forall>a\<in>set (mb_get_artist_discography coerce mb aid).
         sort_year a = (case release_year a of None \<Rightarrow> 0 | Some y \<Rightarrow> y))
   \<and> (\<forall>i j. i < length (mb_get_artist_discography coerce mb aid) \<longrightarrow>
         j < length (mb_get_artist_discography coerce mb aid) \<longrightarrow>
         release_year (mb_get_artist_discography coerce mb aid ! i) = None \<longrightarrow>
         release_year (mb_get_artist_discography coerce mb aid ! j) \<noteq> None \<longrightarrow> i < j)
   \<and> (\<forall>result albs. browse_release_groups mb aid = Inr result \<longrightarrow>
         parsed_albums coerce mb result = Inr albs \<longrightarrow>
         mset (mb_get_artist_discography coerce mb aid) = mset albs)
   \<and> (\<forall>(w :: 's world) cr queried s primary others cr1 s1 cr2 s2.
         make_request cr (clock_reading w 0) (search_artist_op w queried) s
           = Some (Inr (primary # others), cr1, s1) \<longrightarrow>
         make_request cr1 (clock_reading w 1)
             (get_artist_discography_op w (artist_musicbrainz_id primary)) s1
           = Some (Inr (mb_get_artist_discography coerce mb aid), cr2, s2) \<longrightarrow>
         (get_artist_discography w cr queried s = None \<or>
          (\<exists>disc st cr3 s3.
             get_artist_discography w cr queried s = Some ((Inr disc, st), cr3, s3) \<and>
             map release_year (albums disc)
               = map release_year (mb_get_artist_discography coerce mb aid)))
         \<and> (key_missing (lastfm_api_key cr) \<longrightarrow>
              get_artist_discography w cr queried s \<noteq> None))"
proof -
  let ?R = "mb_get_artist_discography coerce mb aid"
  have s: "sorted (map sort_year ?R)" by (rule mb_discography_sorted_key)
  have y: "\<forall>a\<in>set ?R. year_in_range a" by (rule mb_discography_year)
  have k: "\<forall>a\<in>set ?R. sort_year a = (case release_year a of None \<Rightarrow> 0 | Some y \<Rightarrow> y)"
    using y sort_year_in_range by blast
  have f: "\<forall>i j. i < length ?R \<longrightarrow> j < length ?R \<longrightarrow> release_year (?R ! i) = None \<longrightarrow>
         release_year (?R ! j) \<noteq> None \<longrightarrow> i < j"
    using yearless_first [OF s y] by blast
  have p: "\<forall>result albs. browse_release_groups mb aid = Inr result \<longrightarrow>
         parsed_albums coerce mb result = Inr albs \<longrightarrow> mset ?R = mset albs"
    by (simp add: mb_get_artist_discography_def)
  have c: "\<forall>(w :: 's world) cr queried s primary others cr1 s1 cr2 s2.
         make_request cr (clock_reading w 0) (search_artist_op w queried) s
           = Some (Inr (primary # others), cr1, s1) \<longrightarrow>
         make_request cr1 (clock_reading w 1)
             (get_artist_discography_op w (artist_musicbrainz_id primary)) s1
           = Some (Inr ?R, cr2, s2) \<longrightarrow>
         (get_artist_discography w cr queried s = None \<or>
          (\<exists>disc st cr3 s3.
             get_artist_discography w cr queried s = Some ((Inr disc, st), cr3, s3) \<and>
             map release_year (albums disc) = map release_year ?R))
         \<and> (key_missing (lastfm_api_key cr) \<longrightarrow>
              get_artist_discography w cr queried s \<noteq> None)"
  proof (intro allI impI)
    fix w :: "'s world" and cr queried s primary others cr1 s1 cr2 s2
    assume "make_request cr (clock_reading w 0) (search_artist_op w queried) s
           = Some (Inr (primary # others), cr1, s1)"
      and "make_request cr1 (clock_reading w 1)
             (get_artist_discography_op w (artist_musicbrainz_id primary)) s1
           = Some (Inr ?R, cr2, s2)"
    then show "(get_artist_discography w cr queried s = None \<or>
          (\<exists>disc st cr3 s3.
             get_artist_discography w cr queried s = Some ((Inr disc, st), cr3, s3) \<and>
             map release_year (albums disc) = map release_year ?R))
         \<and> (key_missing (lastfm_api_key cr) \<longrightarrow>
              get_artist_discography w cr queried s \<noteq> None)"
      by (rule crawl_keeps_years)
  qed
  show ?thesis
    by (rule conjI [OF s conjI [OF k conjI [OF f conjI [OF p c]]]])
qed


lemmas py_int_defs = py_int_str_def py_strip_def is_int_space_def is_digit_def digit_val_def

lemma demo_date_full:
  "parse_date (JStr ''1997-05-21'') = Inr (Some \<lparr>year = 1997, month = 5, day = 21\<rparr>)"
  by (simp add: parse_date_def date_of_parts_def ebind_def py_int_defs mk_date_def
      fits_c_int_def days_in_month_def)

lemma demo_date_year:
  "parse_date (JStr ''1993'') = Inr (Some \<lparr>year = 1993, month = 1, day = 1\<rparr>)"
  by (simp add: parse_date_def date_of_parts_def ebind_def py_int_defs mk_date_def
      fits_c_int_def days_in_month_def)

lemma demo_tracks_r1:
  "get_album_tracks no_coercion demo_library (JStr ''r1'') =
     [track_a\<lparr>duration_ms := Some 284000\<rparr>]"
  by (simp add: get_album_tracks_def demo_library_def release_tracks_def medium_tracks_def
      parse_track_def ebind_def py_int_defs validate_str_def track_a_def)

lemma demo_tracks_r2:
  "get_album_tracks no_coercion demo_library (JStr ''r2'') = []"
  by (simp add: get_album_tracks_def demo_library_def)


lemma lower_char_A: "lower_char (CHR ''A'') = CHR ''a''"
  by code_simp

lemma demo_album_1:
  "parse_release_group no_coercion demo_library demo_group_1 =
     Some (new_album ''OK Computer'' (Some \<lparr>year = 1997, month = 5, day = 21\<rparr>) ''album'' None
             [track_a\<lparr>duration_ms := Some 284000\<rparr>])"
  by (simp add: parse_release_group_def release_group_album_def demo_group_1_def ebind_def
      first_item_def demo_tracks_r1 demo_date_full py_lower_def lower_char_A
      validate_str_def validate_opt_str_def)
     (simp add: lower_char_def)

lemma demo_album_2:
  "parse_release_group no_coercion demo_library demo_group_2 =
     Some (new_album ''Untitled'' None ''album'' None [])"
  by (simp add: parse_release_group_def release_group_album_def demo_group_2_def ebind_def
      first_item_def demo_tracks_r2 parse_date_def py_lower_def lower_char_def
      validate_str_def validate_opt_str_def)

lemma demo_album_3:
  "parse_release_group no_coercion demo_library demo_group_3 =
     Some (new_album ''Pablo Honey'' (Some \<lparr>year = 1993, month = 1, day = 1\<rparr>) ''album'' None [])"
  by (simp add: parse_release_group_def release_group_album_def demo_group_3_def ebind_def
      first_item_def demo_date_year py_lower_def lower_char_def
      validate_str_def validate_opt_str_def)


lemma demo_sorted:
  "mb_get_artist_discography no_coercion demo_library ''a74b1b7f'' =
     [new_album ''Untitled'' None ''album'' None [],
      new_album ''Pablo Honey'' (Some \<lparr>year = 1993, month = 1, day = 1\<rparr>) ''album'' None [],
      new_album ''OK Computer'' (Some \<lparr>year = 1997, month = 5, day = 21\<rparr>) ''album'' None
        [track_a\<lparr>duration_ms := Some 284000\<rparr>]]"
proof -
  have p: "parsed_albums no_coercion demo_library
             (JDict [(''release-group-list'', JList [demo_group_1, demo_group_2, demo_group_3])])
      = Inr [new_album ''OK Computer'' (Some \<lparr>year = 1997, month = 5, day = 21\<rparr>) ''album'' None
               [track_a\<lparr>duration_ms := Some 284000\<rparr>],
             new_album ''Untitled'' None ''album'' None [],
             new_album ''Pablo Honey'' (Some \<lparr>year = 1993, month = 1, day = 1\<rparr>) ''album'' None []]"
    by (simp add: parsed_albums_def ebind_def demo_album_1 demo_album_2 demo_album_3)
  have b: "browse_release_groups demo_library ''a74b1b7f'' =
      Inr (JDict [(''release-group-list'', JList [demo_group_1, demo_group_2, demo_group_3])])"
    by (simp add: demo_library_def)
  show ?thesis
    by (simp add: mb_get_artist_discography_def b p sort_year_def new_album_def)
qed

theorem mb_discography_sorted_by_year_witness:
  "map release_year (mb_get_artist_discography no_coercion demo_library ''a74b1b7f'')
     = [None, Some 1993, Some 1997]
   \<and> map album_title (mb_get_artist_discography no_coercion demo_library ''a74b1b7f'')
     = [''Untitled'', ''Pablo Honey'', ''OK Computer'']
   \<and> sorted (map sort_year (mb_get_artist_discography no_coercion demo_library ''a74b1b7f''))
   \<and> (\<exists>disc st cr3 s3.
         get_artist_discography demo_world (new_crawler None 5 60 3) ''Radiohead'' ()
           = Some ((Inr disc, st), cr3, s3)
         \<and> map release_year (albums disc) = [None, Some 1993, Some 1997])"
proof -
  let ?R = "mb_get_artist_discography no_coercion demo_library ''a74b1b7f''"
  have ev: "map release_year ?R = [None, Some 1993, Some 1997]
   \<and> map album_title ?R = [''Untitled'', ''Pablo Honey'', ''OK Computer'']"
    by (simp add: demo_sorted new_album_def)
  note th = mb_discography_sorted_by_year [of no_coercion demo_library "''a74b1b7f''"]
  from th have so: "sorted (map sort_year ?R)"
    by (rule conjunct1)
  have m1: "make_request (new_crawler None 5 60 3) (clock_reading demo_world 0)
              (search_artist_op demo_world ''Radiohead'') ()
            = Some (Inr (radiohead # []), served None [0] 1 0, ())"
    by (simp add: served_new demo_world_def served_returns)
  have m2: "make_request (served None [0] 1 0) (clock_reading demo_world 1)
              (get_artist_discography_op demo_world (artist_musicbrainz_id radiohead)) ()
            = Some (Inr ?R, served None [0, 1] 2 0, ())"
    by (simp add: demo_world_def radiohead_def served_returns)
  have km: "key_missing (lastfm_api_key (new_crawler None 5 60 3))"
    by (simp add: key_missing_def new_crawler_def)
  note crawl = th [THEN conjunct2, THEN conjunct2, THEN conjunct2, THEN conjunct2,
      rule_format, OF m1 m2]
  from crawl km have "\<exists>disc st cr3 s3.
         get_artist_discography demo_world (new_crawler None 5 60 3) ''Radiohead'' ()
           = Some ((Inr disc, st), cr3, s3)
         \<and> map release_year (albums disc) = map release_year ?R"
    by blast
  with ev so show ?thesis by simp
qed

section \<open>Properties of the lyrics-metadata client\<close>

declare py_split.simps [simp del]


























end
